theory Spec2Isabelle
  imports Main
begin

section \<open>The commit drawer: data model\<close>

text \<open>
  The component under study is the "create commit" drawer. Its script reads a selection of
  files, hunks and lines, turns it into the list of worktree changes of a commit request,
  resolves the stack and branch to commit to, calls the backend and updates the UI state.

  JavaScript numbers that count lines are modelled as \<open>int\<close>, strings as \<open>string\<close>,
  \<open>undefined\<close> as \<open>None\<close>. The types \<open>LineId\<close> and \<open>TreeChange\<close> are declared outside
  the component; they are the type parameters \<open>'l\<close> and \<open>'c\<close>.
\<close>

subsection \<open>Hunks and selections\<close>

record hunk_header =
  oldStart :: int
  oldLines :: int
  newStart :: int
  newLines :: int

text \<open>A \<open>DiffHunk\<close> is a hunk header together with the unified-diff text of the hunk.\<close>

record diff_hunk = hunk_header +
  diff :: string

text \<open>
  \<open>SelectedHunk\<close>: a hunk header tagged \<open>full\<close>, or tagged \<open>partial\<close> with the selected
  line ids.
\<close>

datatype 'l selected_hunk =
    FullHunk hunk_header
  | PartialHunk hunk_header "'l list"

text \<open>
  An item of the change selection: \<open>path\<close>, \<open>pathBytes\<close>, \<open>previousPathBytes\<close>, and for a
  \<open>partial\<close> item its \<open>hunks\<close>.
\<close>

datatype 'l selected_file =
    FullFile string "nat list" "nat list option"
  | PartialFile string "nat list" "nat list option" "'l selected_hunk list"

text \<open>The result of \<open>fetchDiff\<close>: \<open>NonPatch\<close> stands for every \<open>type\<close> other than \<open>'Patch'\<close>.\<close>

datatype unified_diff =
    Patch "diff_hunk list"
  | NonPatch

subsection \<open>Requests and responses of the backend\<close>

record worktree_change =
  pathBytes :: "nat list"
  previousPathBytes :: "nat list option"
  hunkHeaders :: "hunk_header list"

record new_stack_request =
  ns_projectId :: string
  ns_branch_name :: "string option"

record branch =
  name :: string

record stack =
  stack_id :: string
  heads :: "branch list"

record create_commit_request =
  req_projectId :: string
  req_stackId :: string
  parentId :: "string option"
  message :: string
  stackBranchName :: string
  worktreeChanges :: "worktree_change list"

record create_commit_response =
  newCommit :: string
  pathsToRejectedChanges :: "(string \<times> string) list"

text \<open>A thrown value: \<open>new Error(msg)\<close>, or the rejection of an awaited backend call.\<close>

datatype error = Error string

text \<open>The calls that reach the backend, in the order they are made.\<close>

datatype 'c backend_call =
    FetchChange string string
  | FetchDiff string 'c
  | NewStack new_stack_request
  | CreateCommitInStack create_commit_request

text \<open>What \<open>showError\<close> and \<open>showToast\<close> put on the screen.\<close>

datatype error_detail = Text string | Cause error

datatype notification =
    ShowError string error_detail
  | ShowToast string string

subsection \<open>Environment and state\<close>

text \<open>
  The environment of one run: the props, the branches query, and the answers of the
  services. An awaited call either rejects (\<open>Inl\<close>) or resolves (\<open>Inr\<close>); the result of
  \<open>fetchChange\<close> and \<open>fetchDiff\<close> carries \<open>data\<close>, which may be \<open>undefined\<close>.
  \<open>lineIdsToHunkHeaders\<close> is imported from the hunk library and is a parameter here.
\<close>

record ('c, 'l) env =
  projectId :: string
  stackId :: "string option"
  branches :: "string \<Rightarrow> string \<Rightarrow> branch list option"
  fetchChange :: "string \<Rightarrow> string \<Rightarrow> error + 'c option"
  fetchDiff :: "string \<Rightarrow> 'c \<Rightarrow> error + unified_diff option"
  lineIdsToHunkHeaders :: "'l list \<Rightarrow> string \<Rightarrow> string \<Rightarrow> error + hunk_header list"
  createNewStack :: "new_stack_request \<Rightarrow> error + stack"
  createCommitInStack :: "create_commit_request \<Rightarrow> error + create_commit_response"

record stack_selection =
  branchName :: string
  commitId :: "string option"

text \<open>
  The mutable state the script touches: \<open>uiState.stack(id).selection\<close> (\<open>selections\<close>),
  \<open>projectState.stackId\<close>, \<open>uiState.global.draftBranchName\<close>, the saved commit title and
  description, the drawer page, the change selection, what was shown to the user, and the
  log of backend calls.
\<close>

record ('c, 'l) state =
  selections :: "string \<Rightarrow> stack_selection option"
  projectStackId :: "string option"
  draftBranchName :: "string option"
  commitTitle :: string
  commitDescription :: string
  drawerPage :: "string option"
  changeSelection :: "'l selected_file list"
  notifications :: "notification list"
  calls :: "'c backend_call list"

section \<open>The operations\<close>

subsection \<open>JavaScript helpers\<close>

text \<open>Truthiness of a \<open>string | undefined\<close>: \<open>undefined\<close> and \<open>''\<close> are falsy.\<close>

definition truthy :: "string option \<Rightarrow> bool" where
  "truthy v = (case v of None \<Rightarrow> False | Some x \<Rightarrow> x \<noteq> [])"

text \<open>\<open>a || b\<close>\<close>

definition js_or :: "string option \<Rightarrow> string option \<Rightarrow> string option" where
  "js_or a b = (if truthy a then a else b)"

text \<open>\<open>Array.prototype.join\<close>\<close>

fun join :: "string \<Rightarrow> string list \<Rightarrow> string" where
  "join sep [] = []"
| "join sep [x] = x"
| "join sep (x # y # ys) = x @ sep @ join sep (y # ys)"

definition record_call :: "'c backend_call \<Rightarrow> ('c, 'l) state \<Rightarrow> ('c, 'l) state" where
  "record_call c s = s\<lparr>calls := calls s @ [c]\<rparr>"

definition notify :: "notification \<Rightarrow> ('c, 'l) state \<Rightarrow> ('c, 'l) state" where
  "notify n s = s\<lparr>notifications := notifications s @ [n]\<rparr>"

subsection \<open>Derived values\<close>

text \<open>\<open>topBranchName\<close>: the name of the first branch of the stack, when there is one.\<close>

definition topBranchName :: "('c, 'l) env \<Rightarrow> string option" where
  "topBranchName env =
     (if truthy (stackId env) then
        (case branches env (projectId env) (the (stackId env)) of
           None \<Rightarrow> None
         | Some [] \<Rightarrow> None
         | Some (b # _) \<Rightarrow> Some (name b))
      else None)"

text \<open>\<open>selection\<close>: the current selection of the stack given by the prop.\<close>

definition selection :: "('c, 'l) env \<Rightarrow> ('c, 'l) state \<Rightarrow> stack_selection option" where
  "selection env s =
     (if truthy (stackId env) then selections s (the (stackId env)) else None)"

definition selectedCommitId :: "('c, 'l) env \<Rightarrow> ('c, 'l) state \<Rightarrow> string option" where
  "selectedCommitId env s =
     (case selection env s of None \<Rightarrow> None | Some sel \<Rightarrow> commitId sel)"

definition selectedBranchName :: "('c, 'l) env \<Rightarrow> ('c, 'l) state \<Rightarrow> string option" where
  "selectedBranchName env s =
     js_or (map_option branchName (selection env s)) (topBranchName env)"

subsection \<open>findHunkDiff\<close>

definition same_coordinates :: "'a hunk_header_scheme \<Rightarrow> 'b hunk_header_scheme \<Rightarrow> bool" where
  "same_coordinates hunkDiff hunk \<longleftrightarrow>
     oldStart hunkDiff = oldStart hunk \<and>
     oldLines hunkDiff = oldLines hunk \<and>
     newStart hunkDiff = newStart hunk \<and>
     newLines hunkDiff = newLines hunk"

text \<open>
  \<open>findHunkDiff\<close> reads only the four coordinates of the selected hunk and touches no UI
  state. The model returns what the function returns or throws, together with the backend
  calls it has made, in order; the caller appends them to the log.
\<close>

definition findHunkDiff ::
  "('c, 'l) env \<Rightarrow> string \<Rightarrow> hunk_header
     \<Rightarrow> (error + diff_hunk option) \<times> 'c backend_call list" where
  "findHunkDiff env filePath hunk =
     (let made1 = [FetchChange (projectId env) filePath] in
      case fetchChange env (projectId env) filePath of
        Inl e \<Rightarrow> (Inl e, made1)
      | Inr None \<Rightarrow> (Inl (Error ''Failed to fetch change''), made1)
      | Inr (Some treeChange) \<Rightarrow>
          (let made2 = made1 @ [FetchDiff (projectId env) treeChange] in
           case fetchDiff env (projectId env) treeChange of
             Inl e \<Rightarrow> (Inl e, made2)
           | Inr None \<Rightarrow> (Inl (Error ''Failed to fetch diff''), made2)
           | Inr (Some NonPatch) \<Rightarrow> (Inr None, made2)
           | Inr (Some (Patch hunks)) \<Rightarrow>
               (Inr (find (\<lambda>hunkDiff. same_coordinates hunkDiff hunk) hunks), made2)))"

subsection \<open>createCommit\<close>

text \<open>
  The inner loop of the flattening (\<open>for (const hunk of item.hunks)\<close>): \<open>acc\<close> is
  the array \<open>hunkHeaders\<close> built so far. A \<open>full\<close> hunk is pushed as it is; a \<open>partial\<close>
  hunk is looked up and its selected lines are translated.
\<close>

fun flattenHunks ::
  "('c, 'l) env \<Rightarrow> string \<Rightarrow> 'l selected_hunk list \<Rightarrow> hunk_header list \<Rightarrow> ('c, 'l) state
     \<Rightarrow> (error + hunk_header list) \<times> ('c, 'l) state" where
  "flattenHunks env path [] acc s = (Inr acc, s)"
| "flattenHunks env path (FullHunk hunk # rest) acc s =
     flattenHunks env path rest (acc @ [hunk]) s"
| "flattenHunks env path (PartialHunk hunk selectedLines # rest) acc s =
     (let (found, made) = findHunkDiff env path hunk;
          s' = s\<lparr>calls := calls s @ made\<rparr> in
      case found of
        Inl e \<Rightarrow> (Inl e, s')
      | Inr None \<Rightarrow> (Inl (Error ''Hunk not found while commiting''), s')
      | Inr (Some hunkDiff) \<Rightarrow>
          (case lineIdsToHunkHeaders env selectedLines (diff hunkDiff) ''commit'' of
             Inl e \<Rightarrow> (Inl e, s')
           | Inr headers \<Rightarrow> flattenHunks env path rest (acc @ headers) s'))"

text \<open>
  The outer loop (\<open>for (const item of selectedChanges.current)\<close>): \<open>acc\<close> is the array
  \<open>worktreeChanges\<close> built so far.
\<close>

fun flattenSelection ::
  "('c, 'l) env \<Rightarrow> 'l selected_file list \<Rightarrow> worktree_change list \<Rightarrow> ('c, 'l) state
     \<Rightarrow> (error + worktree_change list) \<times> ('c, 'l) state" where
  "flattenSelection env [] acc s = (Inr acc, s)"
| "flattenSelection env (FullFile path pb ppb # rest) acc s =
     flattenSelection env rest
       (acc @ [\<lparr>pathBytes = pb, previousPathBytes = ppb, hunkHeaders = []\<rparr>]) s"
| "flattenSelection env (PartialFile path pb ppb hunks # rest) acc s =
     (case flattenHunks env path hunks [] s of
        (Inl e, s') \<Rightarrow> (Inl e, s')
      | (Inr hs, s') \<Rightarrow>
          flattenSelection env rest
            (acc @ [\<lparr>pathBytes = pb, previousPathBytes = ppb, hunkHeaders = hs\<rparr>]) s')"

text \<open>\<open>stack.heads[0]?.name\<close>\<close>

definition first_head_name :: "stack \<Rightarrow> string option" where
  "first_head_name stack = (case heads stack of [] \<Rightarrow> None | h # _ \<Rightarrow> Some (name h))"

text \<open>
  The first part of \<open>createCommit\<close>, up to the two guards: the stack id and branch name to
  commit to. Without a stack id a new stack is created from the draft branch name.
\<close>

definition resolveTarget ::
  "('c, 'l) env \<Rightarrow> ('c, 'l) state \<Rightarrow> (error + string \<times> string) \<times> ('c, 'l) state" where
  "resolveTarget env s =
     (let finalStackId = stackId env;
          finalBranchName = js_or (selectedBranchName env s) (topBranchName env);
          (r, s1) =
            (if \<not> truthy (stackId env) then
               (let req = \<lparr>ns_projectId = projectId env, ns_branch_name = draftBranchName s\<rparr>;
                    s' = record_call (NewStack req) s in
                case createNewStack env req of
                  Inl e \<Rightarrow> (Inl e, s')
                | Inr stack \<Rightarrow>
                    (Inr (Some (stack_id stack), first_head_name stack),
                     s'\<lparr>projectStackId := Some (stack_id stack), draftBranchName := None\<rparr>))
             else (Inr (finalStackId, finalBranchName), s))
      in case r of
           Inl e \<Rightarrow> (Inl e, s1)
         | Inr (finalStackId, finalBranchName) \<Rightarrow>
             if \<not> truthy finalStackId then (Inl (Error ''No stack selected!''), s1)
             else if \<not> truthy finalBranchName then (Inl (Error ''No branch selected!''), s1)
             else (Inr (the finalStackId, the finalBranchName), s1))"

text \<open>
  The last part of \<open>createCommit\<close>: the backend call and, once it has resolved, the updates
  of the UI state and the warning about rejected paths.
\<close>

definition rejected_message :: "(string \<times> string) list \<Rightarrow> string" where
  "rejected_message rejected =
     ''The following files were not committed becuase they are locked to another branch:''
       @ [CHR 0x0A] @ join [CHR 0x0A] (map snd rejected)"

definition submitCommit ::
  "('c, 'l) env \<Rightarrow> string \<Rightarrow> string \<Rightarrow> string \<Rightarrow> worktree_change list \<Rightarrow> ('c, 'l) state
     \<Rightarrow> (error + unit) \<times> ('c, 'l) state" where
  "submitCommit env msg finalStackId finalBranchName changes s =
     (let req = \<lparr>req_projectId = projectId env, req_stackId = finalStackId,
                 parentId = selectedCommitId env s, message = msg,
                 stackBranchName = finalBranchName, worktreeChanges = changes\<rparr>;
          s1 = record_call (CreateCommitInStack req) s in
      case createCommitInStack env req of
        Inl e \<Rightarrow> (Inl e, s1)
      | Inr response \<Rightarrow>
          (let newId = newCommit response;
               s2 = s1\<lparr>commitTitle := [], commitDescription := []\<rparr>;
               s3 = s2\<lparr>drawerPage := None\<rparr>;
               s4 = s3\<lparr>selections := (selections s3)(finalStackId \<mapsto>
                        \<lparr>branchName = finalBranchName, commitId = Some newId\<rparr>)\<rparr>;
               s5 = s4\<lparr>changeSelection := []\<rparr>
           in if pathsToRejectedChanges response \<noteq> [] then
                (Inr (), notify (ShowError ''Some changes were not committed''
                           (Text (rejected_message (pathsToRejectedChanges response)))) s5)
              else (Inr (), s5)))"

definition createCommit ::
  "('c, 'l) env \<Rightarrow> string \<Rightarrow> ('c, 'l) state \<Rightarrow> (error + unit) \<times> ('c, 'l) state" where
  "createCommit env msg s =
     (case resolveTarget env s of
        (Inl e, s1) \<Rightarrow> (Inl e, s1)
      | (Inr (finalStackId, finalBranchName), s1) \<Rightarrow>
          (case flattenSelection env (changeSelection s1) [] s1 of
             (Inl e, s2) \<Rightarrow> (Inl e, s2)
           | (Inr changes, s2) \<Rightarrow> submitCommit env msg finalStackId finalBranchName changes s2))"

subsection \<open>handleCommitCreation\<close>

text \<open>The argument \<open>input\<close> is the value of \<open>input?.getMessage()\<close>.\<close>

definition handleCommitCreation ::
  "('c, 'l) env \<Rightarrow> string option \<Rightarrow> ('c, 'l) state \<Rightarrow> ('c, 'l) state" where
  "handleCommitCreation env input s =
     (if \<not> truthy input then notify (ShowToast ''Commit message is required'' ''error'') s
      else
        (case createCommit env (the input) s of
           (Inl err, s') \<Rightarrow> notify (ShowError ''Failed to commit'' (Cause err)) s'
         | (Inr _, s') \<Rightarrow> s'))"

section \<open>Vocabulary of the properties\<close>

subsection \<open>Kinds of backend calls\<close>

fun is_fetch :: "'c backend_call \<Rightarrow> bool" where
  "is_fetch (FetchChange _ _) = True"
| "is_fetch (FetchDiff _ _) = True"
| "is_fetch _ = False"

fun is_new_stack :: "'c backend_call \<Rightarrow> bool" where
  "is_new_stack (NewStack _) = True"
| "is_new_stack _ = False"

text \<open>The commit requests among some calls, in order.\<close>

fun commit_requests :: "'c backend_call list \<Rightarrow> create_commit_request list" where
  "commit_requests [] = []"
| "commit_requests (CreateCommitInStack req # cs) = req # commit_requests cs"
| "commit_requests (_ # cs) = commit_requests cs"

text \<open>The calls a run has added to the log: the log after, without the log before.\<close>

definition new_calls :: "('c, 'l) state \<Rightarrow> ('c, 'l) state \<Rightarrow> 'c backend_call list" where
  "new_calls s s' = drop (length (calls s)) (calls s')"

subsection \<open>The flattening as the specification words it\<close>

text \<open>
  The headers one hunk selection contributes: a \<open>full\<close> hunk its own coordinates; a
  \<open>partial\<close> hunk what the translator returns for the hunk that the lookup has found.
\<close>

fun spec_headers :: "('c, 'l) env \<Rightarrow> string \<Rightarrow> 'l selected_hunk \<Rightarrow> hunk_header list" where
  "spec_headers env path (FullHunk hunk) = [hunk]"
| "spec_headers env path (PartialHunk hunk selectedLines) =
     (case fst (findHunkDiff env path hunk) of
        Inr (Some hunkDiff) \<Rightarrow>
          (case lineIdsToHunkHeaders env selectedLines (diff hunkDiff) ''commit'' of
             Inr headers \<Rightarrow> headers
           | Inl _ \<Rightarrow> [])
      | _ \<Rightarrow> [])"

text \<open>The backend calls one hunk selection costs: none for a \<open>full\<close> hunk.\<close>

fun spec_lookups :: "('c, 'l) env \<Rightarrow> string \<Rightarrow> 'l selected_hunk \<Rightarrow> 'c backend_call list" where
  "spec_lookups env path (FullHunk hunk) = []"
| "spec_lookups env path (PartialHunk hunk selectedLines) = snd (findHunkDiff env path hunk)"

text \<open>The one change entry of a file selection, and the backend calls it costs.\<close>

fun spec_entry :: "('c, 'l) env \<Rightarrow> 'l selected_file \<Rightarrow> worktree_change" where
  "spec_entry env (FullFile path pb ppb) =
     \<lparr>pathBytes = pb, previousPathBytes = ppb, hunkHeaders = []\<rparr>"
| "spec_entry env (PartialFile path pb ppb hunks) =
     \<lparr>pathBytes = pb, previousPathBytes = ppb,
      hunkHeaders = concat (map (spec_headers env path) hunks)\<rparr>"

fun spec_file_lookups :: "('c, 'l) env \<Rightarrow> 'l selected_file \<Rightarrow> 'c backend_call list" where
  "spec_file_lookups env (FullFile path pb ppb) = []"
| "spec_file_lookups env (PartialFile path pb ppb hunks) =
     concat (map (spec_lookups env path) hunks)"

text \<open>
  A hunk selection resolves when it is \<open>full\<close>, or when the lookup finds its hunk and the
  translator returns; a file selection resolves when all its hunks do.
\<close>

fun hunk_resolves :: "('c, 'l) env \<Rightarrow> string \<Rightarrow> 'l selected_hunk \<Rightarrow> bool" where
  "hunk_resolves env path (FullHunk hunk) = True"
| "hunk_resolves env path (PartialHunk hunk selectedLines) =
     (case fst (findHunkDiff env path hunk) of
        Inr (Some hunkDiff) \<Rightarrow>
          (case lineIdsToHunkHeaders env selectedLines (diff hunkDiff) ''commit'' of
             Inr _ \<Rightarrow> True
           | Inl _ \<Rightarrow> False)
      | _ \<Rightarrow> False)"

fun file_resolves :: "('c, 'l) env \<Rightarrow> 'l selected_file \<Rightarrow> bool" where
  "file_resolves env (FullFile path pb ppb) = True"
| "file_resolves env (PartialFile path pb ppb hunks) = list_all (hunk_resolves env path) hunks"

text \<open>
  The lookup of a hunk selection misses when \<open>findHunkDiff\<close> throws or returns
  \<open>undefined\<close>.
\<close>

definition lookup_misses :: "('c, 'l) env \<Rightarrow> string \<Rightarrow> hunk_header \<Rightarrow> bool" where
  "lookup_misses env path hunk =
     (case fst (findHunkDiff env path hunk) of Inr (Some _) \<Rightarrow> False | _ \<Rightarrow> True)"

subsection \<open>The lines of a text\<close>

text \<open>
  What a reader sees of a text: its lines, that is the pieces between the line feeds, in
  order. A text without a line feed is one line.
\<close>

fun lines_of :: "string \<Rightarrow> string list" where
  "lines_of [] = [[]]"
| "lines_of (c # cs) =
     (if c = CHR 0x0A then [] # lines_of cs
      else (case lines_of cs of [] \<Rightarrow> [[c]] | l # ls \<Rightarrow> (c # l) # ls))"

subsection \<open>A concrete project\<close>

text \<open>
  One project to run the operations on: the backend knows a change for \<open>fileC\<close> only,
  whose diff is a patch of one hunk at \<open>(10, 4, 10, 4)\<close>; the translator returns one header
  as long as the number of selected lines; a new stack gets the id \<open>s2\<close> and one branch,
  named after the draft; a commit returns the id \<open>c1\<close> and the rejected paths given.
\<close>

definition ex_hunk :: diff_hunk where
  "ex_hunk = \<lparr>oldStart = 10, oldLines = 4, newStart = 10, newLines = 4, diff = ''@@''\<rparr>"

definition ex_env :: "string option \<Rightarrow> (string \<times> string) list \<Rightarrow> (nat, nat) env" where
  "ex_env sid rejected =
     \<lparr>projectId = ''p'',
      stackId = sid,
      branches = (\<lambda>_ _. Some [\<lparr>name = ''top''\<rparr>]),
      fetchChange = (\<lambda>_ path. if path = ''fileC'' then Inr (Some 7) else Inr None),
      fetchDiff = (\<lambda>_ _. Inr (Some (Patch [ex_hunk]))),
      lineIdsToHunkHeaders = (\<lambda>ls _ _.
        Inr [\<lparr>oldStart = 10, oldLines = int (length ls),
              newStart = 10, newLines = int (length ls)\<rparr>]),
      createNewStack = (\<lambda>req.
        Inr \<lparr>stack_id = ''s2'',
             heads = (case ns_branch_name req of None \<Rightarrow> [] | Some n \<Rightarrow> [\<lparr>name = n\<rparr>])\<rparr>),
      createCommitInStack = (\<lambda>_. Inr \<lparr>newCommit = ''c1'', pathsToRejectedChanges = rejected\<rparr>)\<rparr>"

definition ex_state :: "nat selected_file list \<Rightarrow> (nat, nat) state" where
  "ex_state sel =
     \<lparr>selections = (\<lambda>_. None),
      projectStackId = None,
      draftBranchName = Some ''lane'',
      commitTitle = ''title'',
      commitDescription = ''body'',
      drawerPage = Some ''new-commit'',
      changeSelection = sel,
      notifications = [],
      calls = []\<rparr>"

text \<open>
  A selection of three files: one whole, one with a whole hunk, one with three lines of the
  hunk at \<open>(10, 4, 10, 4)\<close>. And a stale one: its hunk is not in the diff any more.
\<close>

definition ex_selection :: "nat selected_file list" where
  "ex_selection =
     [FullFile ''fileA'' [1] None,
      PartialFile ''fileB'' [2] None
        [FullHunk \<lparr>oldStart = 1, oldLines = 5, newStart = 1, newLines = 6\<rparr>],
      PartialFile ''fileC'' [3] None
        [PartialHunk \<lparr>oldStart = 10, oldLines = 4, newStart = 10, newLines = 4\<rparr> [1, 2, 3]]]"

definition ex_stale_hunk :: hunk_header where
  "ex_stale_hunk = \<lparr>oldStart = 11, oldLines = 4, newStart = 11, newLines = 4\<rparr>"

definition ex_stale_selection :: "nat selected_file list" where
  "ex_stale_selection = [PartialFile ''fileC'' [3] None [PartialHunk ex_stale_hunk [1]]]"

text \<open>
  The same project with the answers of \<open>fetchChange\<close> and \<open>fetchDiff\<close> given, and two more
  hunks: one that differs from \<open>ex_hunk\<close> in \<open>newLines\<close> only, one with the coordinates of
  \<open>ex_hunk\<close> and another text.
\<close>

definition ex_lookup_env ::
  "(error + nat option) \<Rightarrow> (error + unified_diff option) \<Rightarrow> (nat, nat) env" where
  "ex_lookup_env change answer =
     (ex_env None [])\<lparr>fetchChange := (\<lambda>_ _. change), fetchDiff := (\<lambda>_ _. answer)\<rparr>"

definition ex_other_hunk :: diff_hunk where
  "ex_other_hunk = \<lparr>oldStart = 10, oldLines = 4, newStart = 10, newLines = 5, diff = ''@@ 5''\<rparr>"

definition ex_hunk_again :: diff_hunk where
  "ex_hunk_again = \<lparr>oldStart = 10, oldLines = 4, newStart = 10, newLines = 4, diff = ''@@ again''\<rparr>"

text \<open>The same project with a backend that rejects every commit call.\<close>

definition ex_failing_env :: "string option \<Rightarrow> (nat, nat) env" where
  "ex_failing_env sid = (ex_env sid [])\<lparr>createCommitInStack := (\<lambda>_. Inl (Error ''offline''))\<rparr>"

text \<open>
  Three more variations: a state in which the stack \<open>s1\<close> has a selected branch and commit,
  a project whose branches query has no data, and a backend whose new stack has no id.
\<close>

definition ex_state_selected :: "nat selected_file list \<Rightarrow> (nat, nat) state" where
  "ex_state_selected sel =
     (ex_state sel)\<lparr>selections :=
        (\<lambda>_. None)(''s1'' \<mapsto> \<lparr>branchName = ''feature'', commitId = Some ''c0''\<rparr>)\<rparr>"

definition ex_no_branches_env :: "(nat, nat) env" where
  "ex_no_branches_env = (ex_env (Some ''s1'') [])\<lparr>branches := (\<lambda>_ _. None)\<rparr>"

definition ex_unnamed_stack_env :: "(nat, nat) env" where
  "ex_unnamed_stack_env =
     (ex_env None [])\<lparr>createNewStack :=
        (\<lambda>_. Inr \<lparr>stack_id = [], heads = [\<lparr>name = ''lane''\<rparr>]\<rparr>)\<rparr>"

section \<open>Auxiliary facts\<close>

lemma findHunkDiff_made:
  "list_all is_fetch (snd (findHunkDiff env p h))"
  by (simp add: findHunkDiff_def Let_def split: sum.splits option.splits unified_diff.splits)

lemma flattenHunks_frame:
  "flattenHunks env p hs acc s = (r, s') \<Longrightarrow>
     s' = s\<lparr>calls := calls s'\<rparr> \<and> (\<exists>cs. calls s' = calls s @ cs \<and> list_all is_fetch cs)"
proof (induction hs arbitrary: acc s)
  case Nil
  then show ?case by auto
next
  case (Cons h hs)
  show ?case
  proof (cases h)
    case (FullHunk x)
    with Cons show ?thesis by auto
  next
    case (PartialHunk x ls)
    obtain found made where fm: "findHunkDiff env p x = (found, made)" by (cases "findHunkDiff env p x")
    then have m: "list_all is_fetch made" using findHunkDiff_made[of env p x] by simp
    let ?s1 = "s\<lparr>calls := calls s @ made\<rparr>"
    show ?thesis
    proof (cases "\<exists>d hs'. found = Inr (Some d) \<and> lineIdsToHunkHeaders env ls (diff d) ''commit'' = Inr hs'")
      case True
      then obtain d hs' where d: "found = Inr (Some d)" "lineIdsToHunkHeaders env ls (diff d) ''commit'' = Inr hs'" by blast
      with Cons.prems PartialHunk fm have "flattenHunks env p hs (acc @ hs') ?s1 = (r, s')" by simp
      from Cons.IH[OF this] m show ?thesis by auto
    next
      case False
      with Cons.prems PartialHunk fm have "s' = ?s1"
        by (auto simp: Let_def split: sum.splits option.splits)
      with m show ?thesis by auto
    qed
  qed
qed

lemma flattenHunks_ok:
  "list_all (hunk_resolves env p) hs \<Longrightarrow>
     flattenHunks env p hs acc s =
       (Inr (acc @ concat (map (spec_headers env p) hs)),
        s\<lparr>calls := calls s @ concat (map (spec_lookups env p) hs)\<rparr>)"
proof (induction hs arbitrary: acc s)
  case Nil
  then show ?case by simp
next
  case (Cons h hs)
  then show ?case
    by (cases h) (auto simp: Let_def split: prod.splits sum.splits option.splits)
qed

lemma flattenHunks_fails:
  "\<not> list_all (hunk_resolves env p) hs \<Longrightarrow> \<exists>e. fst (flattenHunks env p hs acc s) = Inl e"
proof (induction hs arbitrary: acc s)
  case Nil
  then show ?case by simp
next
  case (Cons h hs)
  then show ?case
    by (cases h) (auto simp: Let_def split: prod.splits sum.splits option.splits)
qed


lemma flattenSelection_frame:
  "flattenSelection env items acc s = (r, s') \<Longrightarrow>
     s' = s\<lparr>calls := calls s'\<rparr> \<and> (\<exists>cs. calls s' = calls s @ cs \<and> list_all is_fetch cs)"
proof (induction items arbitrary: acc s)
  case Nil
  then show ?case by auto
next
  case (Cons f fs)
  show ?case
  proof (cases f)
    case (FullFile p pb ppb)
    with Cons show ?thesis by auto
  next
    case (PartialFile p pb ppb hs)
    obtain r1 s1 where h: "flattenHunks env p hs [] s = (r1, s1)"
      by (cases "flattenHunks env p hs [] s")
    note f1 = flattenHunks_frame[OF h]
    show ?thesis
    proof (cases r1)
      case (Inl e)
      with Cons.prems PartialFile h f1 show ?thesis by auto
    next
      case (Inr hs')
      with Cons.prems PartialFile h
      have "flattenSelection env fs
              (acc @ [\<lparr>pathBytes = pb, previousPathBytes = ppb, hunkHeaders = hs'\<rparr>]) s1 = (r, s')"
        by simp
      from Cons.IH[OF this] f1 show ?thesis by auto
    qed
  qed
qed

lemma flattenSelection_ok:
  "list_all (file_resolves env) items \<Longrightarrow>
     flattenSelection env items acc s =
       (Inr (acc @ map (spec_entry env) items),
        s\<lparr>calls := calls s @ concat (map (spec_file_lookups env) items)\<rparr>)"
proof (induction items arbitrary: acc s)
  case Nil
  then show ?case by simp
next
  case (Cons f fs)
  then show ?case
    by (cases f) (simp_all add: flattenHunks_ok)
qed

lemma flattenSelection_fails:
  "\<not> list_all (file_resolves env) items \<Longrightarrow>
     \<exists>e. fst (flattenSelection env items acc s) = Inl e"
proof (induction items arbitrary: acc s)
  case Nil
  then show ?case by simp
next
  case (Cons f fs)
  show ?case
  proof (cases f)
    case (FullFile p pb ppb)
    with Cons show ?thesis by simp
  next
    case (PartialFile p pb ppb hs)
    show ?thesis
    proof (cases "list_all (hunk_resolves env p) hs")
      case True
      with Cons PartialFile show ?thesis by (simp add: flattenHunks_ok)
    next
      case False
      from flattenHunks_fails[OF this, of "[]" s] PartialFile show ?thesis
        by (auto split: prod.splits sum.splits)
    qed
  qed
qed

lemma js_or_absorb: "js_or (js_or a b) b = js_or a b"
  by (simp add: js_or_def)


lemma new_calls_append: "calls s' = calls s @ cs \<Longrightarrow> new_calls s s' = cs"
  by (simp add: new_calls_def)

lemma commit_requests_append:
  "commit_requests (xs @ ys) = commit_requests xs @ commit_requests ys"
  by (induction xs rule: commit_requests.induct) simp_all

lemma commit_requests_fetch: "list_all is_fetch cs \<Longrightarrow> commit_requests cs = []"
  by (induction cs rule: commit_requests.induct) simp_all

lemma commit_requests_new_stack: "list_all is_new_stack cs \<Longrightarrow> commit_requests cs = []"
  by (induction cs rule: commit_requests.induct) simp_all

lemma spec_lookups_fetch: "list_all is_fetch (spec_lookups env p h)"
  by (cases h) (simp_all add: findHunkDiff_made)

lemma spec_file_lookups_fetch:
  "list_all is_fetch (concat (map (spec_file_lookups env) items))"
proof (induction items)
  case Nil
  show ?case by simp
next
  case (Cons f fs)
  have "list_all is_fetch (spec_file_lookups env f)"
  proof (cases f)
    case (FullFile p pb ppb)
    then show ?thesis by simp
  next
    case (PartialFile p pb ppb hs)
    have "list_all is_fetch (concat (map (spec_lookups env p) hs))"
      by (induction hs) (simp_all add: spec_lookups_fetch)
    with PartialFile show ?thesis by simp
  qed
  with Cons show ?case by simp
qed

lemma resolveTarget_given:
  "truthy (stackId env) \<Longrightarrow>
     resolveTarget env s =
       (let bn = js_or (map_option branchName (selection env s)) (topBranchName env) in
        if truthy bn then (Inr (the (stackId env), the bn), s)
        else (Inl (Error ''No branch selected!''), s))"
  by (simp add: resolveTarget_def selectedBranchName_def js_or_absorb Let_def)

lemma resolveTarget_new:
  "\<not> truthy (stackId env) \<Longrightarrow>
     resolveTarget env s =
       (let req = \<lparr>ns_projectId = projectId env, ns_branch_name = draftBranchName s\<rparr>;
            s1 = s\<lparr>calls := calls s @ [NewStack req]\<rparr> in
        case createNewStack env req of
          Inl e \<Rightarrow> (Inl e, s1)
        | Inr stack \<Rightarrow>
            (let s2 = s1\<lparr>projectStackId := Some (stack_id stack), draftBranchName := None\<rparr> in
             if stack_id stack = [] then (Inl (Error ''No stack selected!''), s2)
             else if \<not> truthy (first_head_name stack) then (Inl (Error ''No branch selected!''), s2)
             else (Inr (stack_id stack, the (first_head_name stack)), s2)))"
  by (simp add: resolveTarget_def record_call_def Let_def truthy_def split: sum.splits)

lemma resolveTarget_frame:
  "resolveTarget env s = (r, s1) \<Longrightarrow>
     changeSelection s1 = changeSelection s \<and> selections s1 = selections s \<and>
     commitTitle s1 = commitTitle s \<and> commitDescription s1 = commitDescription s \<and>
     drawerPage s1 = drawerPage s \<and> notifications s1 = notifications s \<and>
     (\<exists>cs. calls s1 = calls s @ cs \<and> list_all is_new_stack cs)"
proof (cases "truthy (stackId env)")
  case True
  assume "resolveTarget env s = (r, s1)"
  with True show ?thesis
    by (auto simp: resolveTarget_given Let_def split: if_splits)
next
  case False
  assume "resolveTarget env s = (r, s1)"
  with False show ?thesis
    by (auto simp: resolveTarget_new Let_def split: if_splits sum.splits)
qed


lemma createCommit_cases:
  assumes "createCommit env msg s = (r, s')"
  obtains
    (resolve) e where "resolveTarget env s = (Inl e, s')" "r = Inl e"
  | (flatten) sid bn s1 e cs where
      "resolveTarget env s = (Inr (sid, bn), s1)"
      "\<not> list_all (file_resolves env) (changeSelection s)"
      "r = Inl e" "s' = s1\<lparr>calls := calls s1 @ cs\<rparr>" "list_all is_fetch cs"
  | (submit) sid bn s1 where
      "resolveTarget env s = (Inr (sid, bn), s1)"
      "list_all (file_resolves env) (changeSelection s)"
      "submitCommit env msg sid bn (map (spec_entry env) (changeSelection s))
         (s1\<lparr>calls := calls s1 @ concat (map (spec_file_lookups env) (changeSelection s))\<rparr>)
       = (r, s')"
proof -
  obtain r1 s1 where rt: "resolveTarget env s = (r1, s1)"
    by (cases "resolveTarget env s")
  from resolveTarget_frame[OF rt] have cs: "changeSelection s1 = changeSelection s" by simp
  show thesis
  proof (cases r1)
    case (Inl e)
    with assms rt have "s' = s1" "r = Inl e" by (simp_all add: createCommit_def)
    with rt Inl resolve show thesis by simp
  next
    case (Inr tgt)
    obtain sid bn where tgt: "tgt = (sid, bn)" by (cases tgt)
    show thesis
    proof (cases "list_all (file_resolves env) (changeSelection s)")
      case True
      from True cs have "list_all (file_resolves env) (changeSelection s1)" by simp
      from flattenSelection_ok[OF this, of "[]" s1] assms rt Inr tgt cs
      have "submitCommit env msg sid bn (map (spec_entry env) (changeSelection s))
         (s1\<lparr>calls := calls s1 @ concat (map (spec_file_lookups env) (changeSelection s))\<rparr>)
       = (r, s')"
        by (simp add: createCommit_def)
      with rt Inr tgt True submit show thesis by simp
    next
      case False
      then have nr: "\<not> list_all (file_resolves env) (changeSelection s1)" using cs by simp
      obtain r2 s2 where fl: "flattenSelection env (changeSelection s1) [] s1 = (r2, s2)"
        by (cases "flattenSelection env (changeSelection s1) [] s1")
      from flattenSelection_fails[OF nr, of "[]" s1] fl obtain e where e: "r2 = Inl e" by auto
      from flattenSelection_frame[OF fl] obtain cs' where
        fr: "s2 = s1\<lparr>calls := calls s2\<rparr>" "calls s2 = calls s1 @ cs'" "list_all is_fetch cs'"
        by blast
      from assms rt Inr tgt fl e have "r = Inl e" "s' = s2" by (simp_all add: createCommit_def)
      moreover from fr have "s2 = s1\<lparr>calls := calls s1 @ cs'\<rparr>" by simp
      ultimately show thesis using flatten[of sid bn s1 e cs'] rt Inr tgt False fr(3) by simp
    qed
  qed
qed

text \<open>The definitions a run on the concrete project unfolds.\<close>

lemmas run_defs =
  ex_env_def ex_state_def ex_selection_def ex_stale_selection_def ex_stale_hunk_def ex_hunk_def
  createCommit_def resolveTarget_def submitCommit_def handleCommitCreation_def
  findHunkDiff_def same_coordinates_def first_head_name_def rejected_message_def
  selectedBranchName_def selectedCommitId_def selection_def topBranchName_def
  truthy_def js_or_def record_call_def notify_def new_calls_def lookup_misses_def Let_def

section \<open>The flattening\<close>

text \<open>
  C1. The flattening of a selection returns its entries whenever every \<open>partial\<close> hunk of
  the selection resolves, and when it returns it has emitted exactly one change entry
  per file selection, in the order of the selection: for a \<open>full\<close> file the entry with no
  hunk headers; for a \<open>partial\<close> file the entry whose headers are the contributions of
  its hunk selections in order, a \<open>full\<close> hunk contributing its own coordinates as one
  header and a \<open>partial\<close> hunk the headers the translator returns for the hunk the lookup
  has found (\<open>spec_entry\<close>). The backend calls made are the lookups of the \<open>partial\<close>
  hunks and nothing else, so a \<open>full\<close> hunk or file costs no call
  (\<open>spec_file_lookups\<close>). Every commit request that \<open>createCommit\<close> sends carries exactly
  these entries for the change selection.
\<close>

theorem flattener_one_entry_per_file:
  "(flattenSelection env items [] s = (Inr entries, s') \<longrightarrow>
      entries = map (spec_entry env) items \<and>
      calls s' = calls s @ concat (map (spec_file_lookups env) items)) \<and>
   (list_all (file_resolves env) items \<longrightarrow>
      flattenSelection env items [] s =
        (Inr (map (spec_entry env) items),
         s\<lparr>calls := calls s @ concat (map (spec_file_lookups env) items)\<rparr>)) \<and>
   (createCommit env msg s = (r, s'') \<longrightarrow>
      (\<forall>req \<in> set (commit_requests (new_calls s s'')).
         worktreeChanges req = map (spec_entry env) (changeSelection s)))"
proof (intro conjI impI)
  assume "list_all (file_resolves env) items"
  from flattenSelection_ok[OF this, of "[]" s]
  show "flattenSelection env items [] s =
        (Inr (map (spec_entry env) items),
         s\<lparr>calls := calls s @ concat (map (spec_file_lookups env) items)\<rparr>)"
    by simp
next
  assume fl: "flattenSelection env items [] s = (Inr entries, s')"
  have ok: "list_all (file_resolves env) items"
  proof (rule ccontr)
    assume "\<not> ?thesis"
    from flattenSelection_fails[OF this, of "[]" s] fl show False by simp
  qed
  from flattenSelection_ok[OF ok, of "[]" s] fl
  show "entries = map (spec_entry env) items"
    and "calls s' = calls s @ concat (map (spec_file_lookups env) items)"
    by simp_all
next
  assume "createCommit env msg s = (r, s'')"
  then show "\<forall>req \<in> set (commit_requests (new_calls s s'')).
         worktreeChanges req = map (spec_entry env) (changeSelection s)"
  proof (cases rule: createCommit_cases)
    case (resolve e)
    from resolveTarget_frame[OF resolve(1)] obtain cs where
      "calls s'' = calls s @ cs" "list_all is_new_stack cs" by blast
    then show ?thesis by (simp add: new_calls_append commit_requests_new_stack)
  next
    case (flatten sid bn s1 e cs)
    from resolveTarget_frame[OF flatten(1)] obtain cs0 where
      "calls s1 = calls s @ cs0" "list_all is_new_stack cs0" by blast
    with flatten have "calls s'' = calls s @ (cs0 @ cs)" by simp
    from new_calls_append[OF this] \<open>list_all is_new_stack cs0\<close> flatten(5)
    show ?thesis
      by (simp add: commit_requests_append commit_requests_new_stack commit_requests_fetch)
  next
    case (submit sid bn s1)
    from resolveTarget_frame[OF submit(1)] obtain cs0 where
      c0: "calls s1 = calls s @ cs0" "list_all is_new_stack cs0" by blast
    let ?lk = "concat (map (spec_file_lookups env) (changeSelection s))"
    have lk: "list_all is_fetch ?lk" by (rule spec_file_lookups_fetch)
    from submit(3) obtain req where
      req: "calls s'' = calls s1 @ ?lk @ [CreateCommitInStack req]"
           "worktreeChanges req = map (spec_entry env) (changeSelection s)"
      by (auto simp: submitCommit_def Let_def record_call_def notify_def split: sum.splits if_splits)
    with c0 have "calls s'' = calls s @ (cs0 @ ?lk @ [CreateCommitInStack req])" by simp
    from new_calls_append[OF this] c0(2) lk req(2)
    show ?thesis
      by (simp add: commit_requests_append commit_requests_new_stack commit_requests_fetch)
  qed
qed

theorem flattener_one_entry_per_file_witness:
  "flattenSelection (ex_env (Some ''s1'') []) ex_selection [] (ex_state ex_selection) =
     (Inr [\<lparr>pathBytes = [1], previousPathBytes = None, hunkHeaders = []\<rparr>,
           \<lparr>pathBytes = [2], previousPathBytes = None,
            hunkHeaders = [\<lparr>oldStart = 1, oldLines = 5, newStart = 1, newLines = 6\<rparr>]\<rparr>,
           \<lparr>pathBytes = [3], previousPathBytes = None,
            hunkHeaders = [\<lparr>oldStart = 10, oldLines = 3, newStart = 10, newLines = 3\<rparr>]\<rparr>],
      (ex_state ex_selection)\<lparr>calls := [FetchChange ''p'' ''fileC'', FetchDiff ''p'' 7]\<rparr>) \<and>
   map (spec_entry (ex_env (Some ''s1'') [])) ex_selection =
     [\<lparr>pathBytes = [1], previousPathBytes = None, hunkHeaders = []\<rparr>,
      \<lparr>pathBytes = [2], previousPathBytes = None,
       hunkHeaders = [\<lparr>oldStart = 1, oldLines = 5, newStart = 1, newLines = 6\<rparr>]\<rparr>,
      \<lparr>pathBytes = [3], previousPathBytes = None,
       hunkHeaders = [\<lparr>oldStart = 10, oldLines = 3, newStart = 10, newLines = 3\<rparr>]\<rparr>] \<and>
   concat (map (spec_file_lookups (ex_env (Some ''s1'') [])) ex_selection) =
     [FetchChange ''p'' ''fileC'', FetchDiff ''p'' 7] \<and>
   map worktreeChanges
     (commit_requests (new_calls (ex_state ex_selection)
        (snd (createCommit (ex_env (Some ''s1'') []) ''m'' (ex_state ex_selection))))) =
     [map (spec_entry (ex_env (Some ''s1'') [])) ex_selection]"
proof -
  let ?E = "ex_env (Some ''s1'') []"
  let ?S = "ex_state ex_selection"
  let ?entries = "[\<lparr>pathBytes = [1], previousPathBytes = None, hunkHeaders = []\<rparr>,
           \<lparr>pathBytes = [2], previousPathBytes = None,
            hunkHeaders = [\<lparr>oldStart = 1, oldLines = 5, newStart = 1, newLines = 6\<rparr>]\<rparr>,
           \<lparr>pathBytes = [3], previousPathBytes = None,
            hunkHeaders = [\<lparr>oldStart = 10, oldLines = 3, newStart = 10, newLines = 3\<rparr>]\<rparr>]"
  let ?S1 = "?S\<lparr>calls := [FetchChange ''p'' ''fileC'', FetchDiff ''p'' 7]\<rparr>"
  have ok: "list_all (file_resolves ?E) ex_selection"
    by (simp add: run_defs)
  have entries: "map (spec_entry ?E) ex_selection = ?entries"
    by (simp add: run_defs)
  have lookups: "concat (map (spec_file_lookups ?E) ex_selection) =
      [FetchChange ''p'' ''fileC'', FetchDiff ''p'' 7]"
    by (simp add: run_defs)
  have run: "flattenSelection ?E ex_selection [] ?S = (Inr ?entries, ?S1)"
    using flattener_one_entry_per_file[of ?E ex_selection ?S ?entries ?S1 "''m''"
      "fst (createCommit ?E ''m'' ?S)" "snd (createCommit ?E ''m'' ?S)"] ok entries lookups
    by (simp add: ex_state_def)
  have pair: "createCommit ?E ''m'' ?S =
      (fst (createCommit ?E ''m'' ?S), snd (createCommit ?E ''m'' ?S))"
    by simp
  from flattener_one_entry_per_file[of ?E ex_selection ?S ?entries ?S1 "''m''"
      "fst (createCommit ?E ''m'' ?S)" "snd (createCommit ?E ''m'' ?S)"] run pair
  have a: "?entries = map (spec_entry ?E) ex_selection"
    and b: "calls ?S1 = calls ?S @ concat (map (spec_file_lookups ?E) ex_selection)"
    and c: "\<forall>req \<in> set (commit_requests (new_calls ?S (snd (createCommit ?E ''m'' ?S)))).
         worktreeChanges req = map (spec_entry ?E) (changeSelection ?S)"
    by blast+
  have one: "length (commit_requests (new_calls ?S (snd (createCommit ?E ''m'' ?S)))) = 1"
    by (simp add: run_defs)
  from b have b': "concat (map (spec_file_lookups ?E) ex_selection) =
     [FetchChange ''p'' ''fileC'', FetchDiff ''p'' 7]"
    by (simp add: ex_state_def)
  from one c have d: "map worktreeChanges
     (commit_requests (new_calls ?S (snd (createCommit ?E ''m'' ?S)))) =
     [map (spec_entry ?E) (changeSelection ?S)]"
    by (cases "commit_requests (new_calls ?S (snd (createCommit ?E ''m'' ?S)))") auto
  have e: "changeSelection ?S = ex_selection" by (simp add: ex_state_def)
  from run a b' d e show ?thesis by simp
qed

text \<open>Two environments that agree on the project and the three collaborators flatten alike.\<close>

lemma findHunkDiff_agree:
  assumes "projectId env1 = projectId env2" "fetchChange env1 = fetchChange env2"
    "fetchDiff env1 = fetchDiff env2"
  shows "findHunkDiff env1 p h = findHunkDiff env2 p h"
  unfolding findHunkDiff_def assms by (rule refl)

lemma flattenHunks_agree:
  assumes "projectId env1 = projectId env2" "fetchChange env1 = fetchChange env2"
    "fetchDiff env1 = fetchDiff env2" "lineIdsToHunkHeaders env1 = lineIdsToHunkHeaders env2"
  shows "fst (flattenHunks env1 p hs acc s1) = fst (flattenHunks env2 p hs acc s2)"
proof (induction hs arbitrary: acc s1 s2)
  case Nil
  show ?case by simp
next
  case (Cons h hs)
  show ?case
  proof (cases h)
    case (FullHunk x)
    with Cons show ?thesis by simp
  next
    case (PartialHunk x ls)
    have same: "findHunkDiff env1 p x = findHunkDiff env2 p x"
      using assms(1-3) by (rule findHunkDiff_agree)
    obtain found made where fm: "findHunkDiff env2 p x = (found, made)"
      by (cases "findHunkDiff env2 p x")
    show ?thesis
      using PartialHunk same fm assms(4) Cons.IH
      by (simp add: Let_def split: sum.splits option.splits)
  qed
qed

lemma flattenSelection_agree:
  assumes "projectId env1 = projectId env2" "fetchChange env1 = fetchChange env2"
    "fetchDiff env1 = fetchDiff env2" "lineIdsToHunkHeaders env1 = lineIdsToHunkHeaders env2"
  shows "fst (flattenSelection env1 items acc s1) = fst (flattenSelection env2 items acc s2)"
proof (induction items arbitrary: acc s1 s2)
  case Nil
  show ?case by simp
next
  case (Cons f fs)
  show ?case
  proof (cases f)
    case (FullFile p pb ppb)
    with Cons show ?thesis by simp
  next
    case (PartialFile p pb ppb hs)
    have same: "fst (flattenHunks env1 p hs [] s1) = fst (flattenHunks env2 p hs [] s2)"
      using assms by (rule flattenHunks_agree)
    obtain r1 t1 where h1: "flattenHunks env1 p hs [] s1 = (r1, t1)"
      by (cases "flattenHunks env1 p hs [] s1")
    obtain r2 t2 where h2: "flattenHunks env2 p hs [] s2 = (r2, t2)"
      by (cases "flattenHunks env2 p hs [] s2")
    from same h1 h2 have "r1 = r2" by simp
    with PartialFile h1 h2 Cons.IH show ?thesis
      by (simp split: sum.splits)
  qed
qed

text \<open>
  C8. Flattening is deterministic: the change entries (or the error) that the flattening of
  a selection produces depend only on the selection, the project id and the answers of
  \<open>fetchChange\<close>, \<open>fetchDiff\<close> and \<open>lineIdsToHunkHeaders\<close>. Two runs on the same selection
  in which these collaborators answer alike return the same list of entries, with the same
  order and hunk headers, whatever the UI state and the log of calls each run starts from;
  in particular a second run that starts where the first has ended.
\<close>

theorem flattening_deterministic:
  assumes "projectId env1 = projectId env2" "fetchChange env1 = fetchChange env2"
    "fetchDiff env1 = fetchDiff env2" "lineIdsToHunkHeaders env1 = lineIdsToHunkHeaders env2"
  shows "fst (flattenSelection env1 items [] s1) = fst (flattenSelection env2 items [] s2)"
  using assms by (rule flattenSelection_agree)

theorem flattening_deterministic_witness:
  "fst (flattenSelection (ex_env None [(''locked'', ''fileD'')]) ex_selection []
          (snd (flattenSelection (ex_env (Some ''s1'') []) ex_selection []
                  (ex_state ex_selection)))) =
   fst (flattenSelection (ex_env (Some ''s1'') []) ex_selection [] (ex_state ex_selection)) \<and>
   fst (flattenSelection (ex_env (Some ''s1'') []) ex_stale_selection []
          (ex_state ex_stale_selection)) =
   fst (flattenSelection (ex_env (Some ''s1'') []) ex_stale_selection []
          (snd (flattenSelection (ex_env (Some ''s1'') []) ex_stale_selection []
                  (ex_state ex_stale_selection))))"
proof -
  let ?E1 = "ex_env (Some ''s1'') []"
  let ?E2 = "ex_env None [(''locked'', ''fileD'')]"
  have same: "projectId ?E1 = projectId ?E2" "fetchChange ?E1 = fetchChange ?E2"
    "fetchDiff ?E1 = fetchDiff ?E2" "lineIdsToHunkHeaders ?E1 = lineIdsToHunkHeaders ?E2"
    by (simp_all add: ex_env_def)
  show ?thesis
    using flattening_deterministic[OF same(1-4), of ex_selection "ex_state ex_selection"
        "snd (flattenSelection ?E1 ex_selection [] (ex_state ex_selection))"]
      flattening_deterministic[OF refl refl refl refl, of ?E1 ex_stale_selection
        "ex_state ex_stale_selection"
        "snd (flattenSelection ?E1 ex_stale_selection [] (ex_state ex_stale_selection))"]
    by simp
qed

section \<open>The lookup of a hunk\<close>

text \<open>
  C6. \<open>findHunkDiff\<close> throws when \<open>fetchChange\<close> has no data for the path
  (\<open>Failed to fetch change\<close>) or \<open>fetchDiff\<close> has none for the change
  (\<open>Failed to fetch diff\<close>), and when either call rejects; it returns \<open>undefined\<close>, without
  throwing, when the diff is not a patch; for a patch it returns the first hunk whose
  old start, old lines, new start and new lines all equal those of the selected hunk, and
  \<open>undefined\<close> exactly when the patch has no such hunk.
\<close>

theorem findHunkDiff_contract:
  "(same_coordinates found hunk \<longleftrightarrow>
      oldStart found = oldStart hunk \<and> oldLines found = oldLines hunk \<and>
      newStart found = newStart hunk \<and> newLines found = newLines hunk) \<and>
   (\<forall>e. fetchChange env (projectId env) path = Inl e \<longrightarrow>
      fst (findHunkDiff env path hunk) = Inl e) \<and>
   (fetchChange env (projectId env) path = Inr None \<longrightarrow>
      fst (findHunkDiff env path hunk) = Inl (Error ''Failed to fetch change'')) \<and>
   (\<forall>treeChange. fetchChange env (projectId env) path = Inr (Some treeChange) \<longrightarrow>
      (\<forall>e. fetchDiff env (projectId env) treeChange = Inl e \<longrightarrow>
         fst (findHunkDiff env path hunk) = Inl e) \<and>
      (fetchDiff env (projectId env) treeChange = Inr None \<longrightarrow>
         fst (findHunkDiff env path hunk) = Inl (Error ''Failed to fetch diff'')) \<and>
      (fetchDiff env (projectId env) treeChange = Inr (Some NonPatch) \<longrightarrow>
         fst (findHunkDiff env path hunk) = Inr None) \<and>
      (\<forall>hunks. fetchDiff env (projectId env) treeChange = Inr (Some (Patch hunks)) \<longrightarrow>
         (\<forall>d. fst (findHunkDiff env path hunk) = Inr (Some d) \<longleftrightarrow>
            (\<exists>i < length hunks. hunks ! i = d \<and> same_coordinates d hunk \<and>
               (\<forall>j < i. \<not> same_coordinates (hunks ! j) hunk))) \<and>
         (fst (findHunkDiff env path hunk) = Inr None \<longleftrightarrow>
            (\<forall>d \<in> set hunks. \<not> same_coordinates d hunk))))"
  by (auto simp: findHunkDiff_def same_coordinates_def Let_def find_Some_iff find_None_iff)

theorem findHunkDiff_contract_witness:
  "fst (findHunkDiff (ex_lookup_env (Inr None) (Inr None)) ''fileC'' ex_stale_hunk)
     = Inl (Error ''Failed to fetch change'') \<and>
   fst (findHunkDiff (ex_lookup_env (Inr (Some 7)) (Inr None)) ''fileC'' ex_stale_hunk)
     = Inl (Error ''Failed to fetch diff'') \<and>
   fst (findHunkDiff (ex_lookup_env (Inr (Some 7)) (Inr (Some NonPatch))) ''fileC'' ex_stale_hunk)
     = Inr None \<and>
   fst (findHunkDiff
          (ex_lookup_env (Inr (Some 7)) (Inr (Some (Patch [ex_other_hunk, ex_hunk, ex_hunk_again]))))
          ''fileC'' \<lparr>oldStart = 10, oldLines = 4, newStart = 10, newLines = 4\<rparr>)
     = Inr (Some ex_hunk) \<and>
   fst (findHunkDiff
          (ex_lookup_env (Inr (Some 7)) (Inr (Some (Patch [ex_other_hunk, ex_hunk, ex_hunk_again]))))
          ''fileC'' ex_stale_hunk)
     = Inr None"
proof -
  let ?hs = "[ex_other_hunk, ex_hunk, ex_hunk_again]"
  let ?h = "\<lparr>oldStart = 10, oldLines = 4, newStart = 10, newLines = 4\<rparr>"
  let ?E1 = "ex_lookup_env (Inr None) (Inr None)"
  let ?E2 = "ex_lookup_env (Inr (Some 7)) (Inr None)"
  let ?E3 = "ex_lookup_env (Inr (Some 7)) (Inr (Some NonPatch))"
  let ?E4 = "ex_lookup_env (Inr (Some 7)) (Inr (Some (Patch ?hs)))"
  have c1: "fetchChange ?E1 (projectId ?E1) ''fileC'' = Inr None"
    by (simp add: ex_lookup_env_def)
  have c2: "fetchChange ?E2 (projectId ?E2) ''fileC'' = Inr (Some 7)"
    "fetchDiff ?E2 (projectId ?E2) 7 = Inr None"
    by (simp_all add: ex_lookup_env_def)
  have c3: "fetchChange ?E3 (projectId ?E3) ''fileC'' = Inr (Some 7)"
    "fetchDiff ?E3 (projectId ?E3) 7 = Inr (Some NonPatch)"
    by (simp_all add: ex_lookup_env_def)
  have c4: "fetchChange ?E4 (projectId ?E4) ''fileC'' = Inr (Some 7)"
    "fetchDiff ?E4 (projectId ?E4) 7 = Inr (Some (Patch ?hs))"
    by (simp_all add: ex_lookup_env_def)
  have a: "fst (findHunkDiff ?E1 ''fileC'' ex_stale_hunk) = Inl (Error ''Failed to fetch change'')"
    using findHunkDiff_contract[where env = ?E1 and path = "''fileC''" and hunk = ex_stale_hunk
        and found = ex_hunk] c1
    by blast
  have b: "fst (findHunkDiff ?E2 ''fileC'' ex_stale_hunk) = Inl (Error ''Failed to fetch diff'')"
    using findHunkDiff_contract[where env = ?E2 and path = "''fileC''" and hunk = ex_stale_hunk
        and found = ex_hunk] c2
    by blast
  have c: "fst (findHunkDiff ?E3 ''fileC'' ex_stale_hunk) = Inr None"
    using findHunkDiff_contract[where env = ?E3 and path = "''fileC''" and hunk = ex_stale_hunk
        and found = ex_hunk] c3
    by blast
  have pos: "\<exists>i < length ?hs. ?hs ! i = ex_hunk \<and> same_coordinates ex_hunk ?h \<and>
               (\<forall>j < i. \<not> same_coordinates (?hs ! j) ?h)"
    by (rule exI[of _ 1])
       (simp add: same_coordinates_def ex_hunk_def ex_other_hunk_def ex_hunk_again_def)
  have d: "fst (findHunkDiff ?E4 ''fileC'' ?h) = Inr (Some ex_hunk)"
    using findHunkDiff_contract[where env = ?E4 and path = "''fileC''" and hunk = ?h
        and found = ex_hunk] c4 pos
    by blast
  have neg: "\<forall>d \<in> set ?hs. \<not> same_coordinates d ex_stale_hunk"
    by (simp add: same_coordinates_def ex_hunk_def ex_other_hunk_def ex_hunk_again_def
          ex_stale_hunk_def)
  have e: "fst (findHunkDiff ?E4 ''fileC'' ex_stale_hunk) = Inr None"
    using findHunkDiff_contract[where env = ?E4 and path = "''fileC''" and hunk = ex_stale_hunk
        and found = ex_hunk] c4 neg
    by blast
  from a b c d e show ?thesis by blast
qed

section \<open>The commit attempt\<close>

text \<open>
  C7. When the composed message is missing or empty, \<open>handleCommitCreation\<close> only shows the
  error toast \<open>Commit message is required\<close>: the rest of the state is as before, and no
  backend call is made (no stack creation, no fetch of a change or diff, no commit).
\<close>

theorem missing_message_rejected:
  assumes "input = None \<or> input = Some []"
  shows "handleCommitCreation env input s =
           s\<lparr>notifications := notifications s @
               [ShowToast ''Commit message is required'' ''error'']\<rparr> \<and>
         calls (handleCommitCreation env input s) = calls s"
  using assms by (auto simp: handleCommitCreation_def truthy_def notify_def)

theorem missing_message_rejected_witness:
  "handleCommitCreation (ex_env None []) (Some []) (ex_state ex_selection) =
     (ex_state ex_selection)\<lparr>notifications :=
        [ShowToast ''Commit message is required'' ''error'']\<rparr> \<and>
   calls (handleCommitCreation (ex_env None []) None (ex_state ex_selection)) = []"
  using missing_message_rejected[of "Some []" "ex_env None []" "ex_state ex_selection"]
    missing_message_rejected[of None "ex_env None []" "ex_state ex_selection"]
  by (simp add: ex_state_def)

text \<open>What \<open>submitCommit\<close> does, and the shape of the log of a whole run.\<close>

lemma selectedCommitId_cong:
  "selections s' = selections s \<Longrightarrow> selectedCommitId env s' = selectedCommitId env s"
  by (simp add: selectedCommitId_def selection_def)

lemma submitCommit_run:
  assumes "submitCommit env msg sid bn ch s = (r, s')"
  defines "req \<equiv> \<lparr>req_projectId = projectId env, req_stackId = sid,
                    parentId = selectedCommitId env s, message = msg,
                    stackBranchName = bn, worktreeChanges = ch\<rparr>"
  shows "calls s' = calls s @ [CreateCommitInStack req]"
    and "projectStackId s' = projectStackId s \<and> draftBranchName s' = draftBranchName s"
    and "\<And>e. createCommitInStack env req = Inl e \<Longrightarrow>
           r = Inl e \<and> s' = s\<lparr>calls := calls s @ [CreateCommitInStack req]\<rparr>"
    and "\<And>response. createCommitInStack env req = Inr response \<Longrightarrow>
           r = Inr () \<and>
           selections s' = (selections s)(sid \<mapsto>
              \<lparr>branchName = bn, commitId = Some (newCommit response)\<rparr>) \<and>
           changeSelection s' = [] \<and> commitTitle s' = [] \<and> commitDescription s' = [] \<and>
           drawerPage s' = None \<and>
           notifications s' = notifications s @
             (if pathsToRejectedChanges response \<noteq> [] then
                [ShowError ''Some changes were not committed''
                   (Text (rejected_message (pathsToRejectedChanges response)))]
              else [])"
  using assms(1) unfolding req_def
  by (auto simp: submitCommit_def Let_def record_call_def notify_def split: sum.splits if_splits)

lemma createCommit_log:
  assumes "createCommit env msg s = (r, s')"
  obtains
    (aborted) e where "r = Inl e" "commit_requests (new_calls s s') = []"
      "changeSelection s' = changeSelection s" "selections s' = selections s"
      "commitTitle s' = commitTitle s" "commitDescription s' = commitDescription s"
      "drawerPage s' = drawerPage s" "notifications s' = notifications s"
  | (submitted) sid bn s1 s2 where
      "resolveTarget env s = (Inr (sid, bn), s1)"
      "list_all (file_resolves env) (changeSelection s)"
      "s2 = s1\<lparr>calls := calls s1 @ concat (map (spec_file_lookups env) (changeSelection s))\<rparr>"
      "submitCommit env msg sid bn (map (spec_entry env) (changeSelection s)) s2 = (r, s')"
      "commit_requests (new_calls s s') =
         [\<lparr>req_projectId = projectId env, req_stackId = sid,
           parentId = selectedCommitId env s, message = msg,
           stackBranchName = bn,
           worktreeChanges = map (spec_entry env) (changeSelection s)\<rparr>]"
  using assms
proof (cases rule: createCommit_cases)
  case (resolve e)
  from resolveTarget_frame[OF resolve(1)] obtain cs where
    fr: "changeSelection s' = changeSelection s" "selections s' = selections s"
      "commitTitle s' = commitTitle s" "commitDescription s' = commitDescription s"
      "drawerPage s' = drawerPage s" "notifications s' = notifications s"
      "calls s' = calls s @ cs" "list_all is_new_stack cs"
    by blast
  from fr(7,8) have "commit_requests (new_calls s s') = []"
    by (simp add: new_calls_append commit_requests_new_stack)
  with resolve(2) fr aborted show ?thesis by blast
next
  case (flatten sid bn s1 e cs)
  from resolveTarget_frame[OF flatten(1)] obtain cs0 where
    fr: "changeSelection s1 = changeSelection s" "selections s1 = selections s"
      "commitTitle s1 = commitTitle s" "commitDescription s1 = commitDescription s"
      "drawerPage s1 = drawerPage s" "notifications s1 = notifications s"
      "calls s1 = calls s @ cs0" "list_all is_new_stack cs0"
    by blast
  from flatten(4) fr(7) have "calls s' = calls s @ (cs0 @ cs)" by simp
  from new_calls_append[OF this] fr(8) flatten(5)
  have "commit_requests (new_calls s s') = []"
    by (simp add: commit_requests_append commit_requests_new_stack commit_requests_fetch)
  moreover from flatten(4) fr
  have "changeSelection s' = changeSelection s" "selections s' = selections s"
      "commitTitle s' = commitTitle s" "commitDescription s' = commitDescription s"
      "drawerPage s' = drawerPage s" "notifications s' = notifications s"
    by simp_all
  ultimately show ?thesis using flatten(3) aborted by blast
next
  case (submit sid bn s1)
  let ?lk = "concat (map (spec_file_lookups env) (changeSelection s))"
  let ?s2 = "s1\<lparr>calls := calls s1 @ ?lk\<rparr>"
  from resolveTarget_frame[OF submit(1)] obtain cs0 where
    fr: "selections s1 = selections s" "calls s1 = calls s @ cs0" "list_all is_new_stack cs0"
    by blast
  have sel: "selectedCommitId env ?s2 = selectedCommitId env s"
    by (rule selectedCommitId_cong) (simp add: fr(1))
  have lk: "list_all is_fetch ?lk" by (rule spec_file_lookups_fetch)
  let ?req = "\<lparr>req_projectId = projectId env, req_stackId = sid,
           parentId = selectedCommitId env s, message = msg,
           stackBranchName = bn,
           worktreeChanges = map (spec_entry env) (changeSelection s)\<rparr>"
  from submitCommit_run(1)[OF submit(3)] sel
  have "calls s' = calls ?s2 @ [CreateCommitInStack ?req]" by simp
  with fr(2) have "calls s' = calls s @ (cs0 @ ?lk @ [CreateCommitInStack ?req])" by simp
  from new_calls_append[OF this] fr(3) lk
  have "commit_requests (new_calls s s') = [?req]"
    by (simp add: commit_requests_append commit_requests_new_stack commit_requests_fetch)
  with submit submitted[of sid bn s1 ?s2] show ?thesis by blast
qed

lemma surj_run: "f = (fst f, snd f)"
  by simp

text \<open>
  C4. In every run of \<open>createCommit\<close> in which the backend commit call is made and returns,
  \<open>createCommit\<close> returns and afterwards: the selection of the target stack is the target
  branch with the new commit id, the change selection is empty, the saved commit title and
  description are empty, and the drawer page is unset (the drawer is closed).
\<close>

theorem successful_commit_effects:
  assumes "createCommit env msg s = (r, s')"
    and "req \<in> set (commit_requests (new_calls s s'))"
    and "createCommitInStack env req = Inr response"
  shows "r = Inr () \<and>
         selections s' = (selections s)(req_stackId req \<mapsto>
            \<lparr>branchName = stackBranchName req, commitId = Some (newCommit response)\<rparr>) \<and>
         changeSelection s' = [] \<and>
         commitTitle s' = [] \<and> commitDescription s' = [] \<and>
         drawerPage s' = None"
  using assms(1)
proof (cases rule: createCommit_log)
  case (aborted e)
  with assms(2) show ?thesis by simp
next
  case (submitted sid bn s1 s2)
  from resolveTarget_frame[OF submitted(1)] submitted(3)
  have fr: "selections s2 = selections s" by simp
  from submitted(5) assms(2) selectedCommitId_cong[OF fr, of env]
  have req: "req = \<lparr>req_projectId = projectId env, req_stackId = sid,
           parentId = selectedCommitId env s2, message = msg,
           stackBranchName = bn,
           worktreeChanges = map (spec_entry env) (changeSelection s)\<rparr>"
    by simp
  have tgt: "req_stackId req = sid" "stackBranchName req = bn"
    by (simp_all add: req)
  from submitCommit_run(4)[OF submitted(4) assms(3)[unfolded req]] fr tgt
  show ?thesis by simp
qed

theorem successful_commit_effects_witness:
  "fst (createCommit (ex_env (Some ''s1'') []) ''m'' (ex_state ex_selection)) = Inr () \<and>
   map req_stackId (commit_requests (new_calls (ex_state ex_selection)
      (snd (createCommit (ex_env (Some ''s1'') []) ''m'' (ex_state ex_selection))))) = [''s1''] \<and>
   selections (snd (createCommit (ex_env (Some ''s1'') []) ''m'' (ex_state ex_selection))) ''s1''
     = Some \<lparr>branchName = ''top'', commitId = Some ''c1''\<rparr> \<and>
   changeSelection (snd (createCommit (ex_env (Some ''s1'') []) ''m'' (ex_state ex_selection))) = [] \<and>
   commitTitle (snd (createCommit (ex_env (Some ''s1'') []) ''m'' (ex_state ex_selection))) = [] \<and>
   commitDescription (snd (createCommit (ex_env (Some ''s1'') []) ''m'' (ex_state ex_selection))) = [] \<and>
   drawerPage (snd (createCommit (ex_env (Some ''s1'') []) ''m'' (ex_state ex_selection))) = None"
proof -
  let ?E = "ex_env (Some ''s1'') []"
  let ?S = "ex_state ex_selection"
  let ?run = "createCommit ?E ''m'' ?S"
  let ?req = "\<lparr>req_projectId = ''p'', req_stackId = ''s1'', parentId = None, message = ''m'',
      stackBranchName = ''top'',
      worktreeChanges =
        [\<lparr>pathBytes = [1], previousPathBytes = None, hunkHeaders = []\<rparr>,
         \<lparr>pathBytes = [2], previousPathBytes = None,
          hunkHeaders = [\<lparr>oldStart = 1, oldLines = 5, newStart = 1, newLines = 6\<rparr>]\<rparr>,
         \<lparr>pathBytes = [3], previousPathBytes = None,
          hunkHeaders = [\<lparr>oldStart = 10, oldLines = 3, newStart = 10, newLines = 3\<rparr>]\<rparr>]\<rparr>"
  let ?resp = "\<lparr>newCommit = ''c1'', pathsToRejectedChanges = []\<rparr>"
  have reqs: "commit_requests (new_calls ?S (snd ?run)) = [?req]"
    by (simp add: run_defs)
  then have mem: "?req \<in> set (commit_requests (new_calls ?S (snd ?run)))"
    by simp
  have resp: "createCommitInStack ?E ?req = Inr ?resp"
    by (simp add: ex_env_def)
  from successful_commit_effects[OF surj_run mem resp] reqs
  show ?thesis by (simp add: ex_state_def)
qed

text \<open>
  The lines of a joined list: joining line-feed-free pieces with line feeds and reading the
  lines back gives the pieces.
\<close>

lemma lines_of_plain: "CHR 0x0A \<notin> set p \<Longrightarrow> lines_of p = [p]"
  by (induction p) auto

lemma lines_of_line:
  "CHR 0x0A \<notin> set p \<Longrightarrow> lines_of (p @ CHR 0x0A # rest) = p # lines_of rest"
  by (induction p) auto

lemma lines_of_join:
  "ps \<noteq> [] \<Longrightarrow> \<forall>p \<in> set ps. CHR 0x0A \<notin> set p \<Longrightarrow>
     lines_of (join [CHR 0x0A] ps) = ps"
proof (induction "[CHR 0x0A]" ps rule: join.induct)
  case 1
  then show ?case by simp
next
  case (2 x)
  then show ?case by (simp add: lines_of_plain)
next
  case (3 x y ys)
  then show ?case by (simp add: lines_of_line)
qed

lemma header_one_line:
  "CHR 0x0A \<notin> set ''The following files were not committed becuase they are locked to another branch:''"
  by simp

text \<open>
  C5. Rejected paths do not make the commit fail: when the backend commit call returns with
  a non-empty list of rejected paths, \<open>createCommit\<close> still returns with all the effects of
  a successful commit, and in addition shows one warning, \<open>Some changes were not committed\<close>,
  whose text is the fixed first line, a line feed, and the rejected paths joined by line
  feeds. So the warning enumerates exactly the rejected paths: when no path holds a line
  feed, the lines of the text are the fixed first line followed by every rejected path,
  once each, in the order of the result, and nothing else.
\<close>

theorem rejected_paths_warning:
  assumes "createCommit env msg s = (r, s')"
    and "req \<in> set (commit_requests (new_calls s s'))"
    and "createCommitInStack env req = Inr response"
    and "pathsToRejectedChanges response \<noteq> []"
  shows "r = Inr () \<and>
         selections s' = (selections s)(req_stackId req \<mapsto>
            \<lparr>branchName = stackBranchName req, commitId = Some (newCommit response)\<rparr>) \<and>
         changeSelection s' = [] \<and>
         commitTitle s' = [] \<and> commitDescription s' = [] \<and>
         drawerPage s' = None \<and>
         notifications s' = notifications s @
           [ShowError ''Some changes were not committed''
              (Text (''The following files were not committed becuase they are locked to another branch:''
                     @ [CHR 0x0A]
                     @ join [CHR 0x0A] (map snd (pathsToRejectedChanges response))))] \<and>
         ((\<forall>path \<in> set (map snd (pathsToRejectedChanges response)). CHR 0x0A \<notin> set path) \<longrightarrow>
            (\<exists>text. notifications s' = notifications s @
                      [ShowError ''Some changes were not committed'' (Text text)] \<and>
                    lines_of text =
                      ''The following files were not committed becuase they are locked to another branch:''
                        # map snd (pathsToRejectedChanges response)))"
proof -
  let ?hd = "''The following files were not committed becuase they are locked to another branch:''"
  let ?ps = "map snd (pathsToRejectedChanges response)"
  let ?text = "?hd @ [CHR 0x0A] @ join [CHR 0x0A] ?ps"
  have main: "r = Inr () \<and>
         selections s' = (selections s)(req_stackId req \<mapsto>
            \<lparr>branchName = stackBranchName req, commitId = Some (newCommit response)\<rparr>) \<and>
         changeSelection s' = [] \<and>
         commitTitle s' = [] \<and> commitDescription s' = [] \<and>
         drawerPage s' = None \<and>
         notifications s' = notifications s @
           [ShowError ''Some changes were not committed'' (Text ?text)]"
    using assms(1)
  proof (cases rule: createCommit_log)
    case (aborted e)
    with assms(2) show ?thesis by simp
  next
    case (submitted sid bn s1 s2)
    from resolveTarget_frame[OF submitted(1)] submitted(3)
    have fr: "selections s2 = selections s" "notifications s2 = notifications s" by simp_all
    from submitted(5) assms(2) selectedCommitId_cong[OF fr(1), of env]
    have req: "req = \<lparr>req_projectId = projectId env, req_stackId = sid,
             parentId = selectedCommitId env s2, message = msg,
             stackBranchName = bn,
             worktreeChanges = map (spec_entry env) (changeSelection s)\<rparr>"
      by simp
    have tgt: "req_stackId req = sid" "stackBranchName req = bn"
      by (simp_all add: req)
    from submitCommit_run(4)[OF submitted(4) assms(3)[unfolded req]] fr tgt assms(4)
    show ?thesis by (simp add: rejected_message_def)
  qed
  have lines: "lines_of ?text = ?hd # ?ps" if plain: "\<forall>path \<in> set ?ps. CHR 0x0A \<notin> set path"
  proof -
    from assms(4) have ne: "?ps \<noteq> []" by simp
    have "lines_of (?hd @ CHR 0x0A # join [CHR 0x0A] ?ps) = ?hd # lines_of (join [CHR 0x0A] ?ps)"
      using header_one_line by (rule lines_of_line)
    also have "lines_of (join [CHR 0x0A] ?ps) = ?ps"
      using ne plain by (rule lines_of_join)
    finally show ?thesis by simp
  qed
  from main lines show ?thesis by blast
qed

theorem rejected_paths_warning_witness:
  "fst (createCommit (ex_env None [(''locked'', ''fileD'')]) ''m'' (ex_state ex_selection))
     = Inr () \<and>
   selections (snd (createCommit (ex_env None [(''locked'', ''fileD'')]) ''m''
                      (ex_state ex_selection))) ''s2''
     = Some \<lparr>branchName = ''lane'', commitId = Some ''c1''\<rparr> \<and>
   changeSelection (snd (createCommit (ex_env None [(''locked'', ''fileD'')]) ''m''
                      (ex_state ex_selection))) = [] \<and>
   commitTitle (snd (createCommit (ex_env None [(''locked'', ''fileD'')]) ''m''
                      (ex_state ex_selection))) = [] \<and>
   commitDescription (snd (createCommit (ex_env None [(''locked'', ''fileD'')]) ''m''
                      (ex_state ex_selection))) = [] \<and>
   drawerPage (snd (createCommit (ex_env None [(''locked'', ''fileD'')]) ''m''
                      (ex_state ex_selection))) = None \<and>
   notifications (snd (createCommit (ex_env None [(''locked'', ''fileD'')]) ''m''
                      (ex_state ex_selection))) =
     [ShowError ''Some changes were not committed''
        (Text (''The following files were not committed becuase they are locked to another branch:''
               @ [CHR 0x0A] @ ''fileD''))] \<and>
   fst (createCommit
          (ex_env (Some ''s1'')
             [(''locked'', ''fileD''), (''locked'', ''dir/fileE''), (''owned'', ''fileF'')])
          ''m'' (ex_state ex_selection))
     = Inr () \<and>
   changeSelection (snd (createCommit
          (ex_env (Some ''s1'')
             [(''locked'', ''fileD''), (''locked'', ''dir/fileE''), (''owned'', ''fileF'')])
          ''m'' (ex_state ex_selection))) = [] \<and>
   notifications (snd (createCommit
          (ex_env (Some ''s1'')
             [(''locked'', ''fileD''), (''locked'', ''dir/fileE''), (''owned'', ''fileF'')])
          ''m'' (ex_state ex_selection))) =
     [ShowError ''Some changes were not committed''
        (Text (''The following files were not committed becuase they are locked to another branch:''
               @ [CHR 0x0A] @ ''fileD'' @ [CHR 0x0A] @ ''dir/fileE'' @ [CHR 0x0A] @ ''fileF''))] \<and>
   lines_of (''The following files were not committed becuase they are locked to another branch:''
               @ [CHR 0x0A] @ ''fileD'' @ [CHR 0x0A] @ ''dir/fileE'' @ [CHR 0x0A] @ ''fileF'') =
     [''The following files were not committed becuase they are locked to another branch:'',
      ''fileD'', ''dir/fileE'', ''fileF'']"
proof -
  let ?E = "ex_env None [(''locked'', ''fileD'')]"
  let ?S = "ex_state ex_selection"
  let ?run = "createCommit ?E ''m'' ?S"
  let ?entries = "[\<lparr>pathBytes = [1], previousPathBytes = None, hunkHeaders = []\<rparr>,
         \<lparr>pathBytes = [2], previousPathBytes = None,
          hunkHeaders = [\<lparr>oldStart = 1, oldLines = 5, newStart = 1, newLines = 6\<rparr>]\<rparr>,
         \<lparr>pathBytes = [3], previousPathBytes = None,
          hunkHeaders = [\<lparr>oldStart = 10, oldLines = 3, newStart = 10, newLines = 3\<rparr>]\<rparr>]"
  let ?req = "\<lparr>req_projectId = ''p'', req_stackId = ''s2'', parentId = None, message = ''m'',
      stackBranchName = ''lane'', worktreeChanges = ?entries\<rparr>"
  let ?resp = "\<lparr>newCommit = ''c1'', pathsToRejectedChanges = [(''locked'', ''fileD'')]\<rparr>"
  have reqs: "commit_requests (new_calls ?S (snd ?run)) = [?req]"
    by (simp add: run_defs)
  then have mem: "?req \<in> set (commit_requests (new_calls ?S (snd ?run)))"
    by simp
  have resp: "createCommitInStack ?E ?req = Inr ?resp"
    by (simp add: ex_env_def)
  have rej: "pathsToRejectedChanges ?resp \<noteq> []"
    by simp
  have one: "fst ?run = Inr () \<and>
     selections (snd ?run) ''s2'' = Some \<lparr>branchName = ''lane'', commitId = Some ''c1''\<rparr> \<and>
     changeSelection (snd ?run) = [] \<and> commitTitle (snd ?run) = [] \<and>
     commitDescription (snd ?run) = [] \<and> drawerPage (snd ?run) = None \<and>
     notifications (snd ?run) =
       [ShowError ''Some changes were not committed''
          (Text (''The following files were not committed becuase they are locked to another branch:''
                 @ [CHR 0x0A] @ ''fileD''))]"
    using rejected_paths_warning[OF surj_run mem resp rej]
    by (simp add: ex_state_def)
  let ?rejected = "[(''locked'', ''fileD''), (''locked'', ''dir/fileE''), (''owned'', ''fileF'')]"
  let ?E3 = "ex_env (Some ''s1'') ?rejected"
  let ?run3 = "createCommit ?E3 ''m'' ?S"
  let ?req3 = "\<lparr>req_projectId = ''p'', req_stackId = ''s1'', parentId = None, message = ''m'',
      stackBranchName = ''top'', worktreeChanges = ?entries\<rparr>"
  let ?resp3 = "\<lparr>newCommit = ''c1'', pathsToRejectedChanges = ?rejected\<rparr>"
  let ?text3 = "''The following files were not committed becuase they are locked to another branch:''
               @ [CHR 0x0A] @ ''fileD'' @ [CHR 0x0A] @ ''dir/fileE'' @ [CHR 0x0A] @ ''fileF''"
  have reqs3: "commit_requests (new_calls ?S (snd ?run3)) = [?req3]"
    by (simp add: run_defs)
  then have mem3: "?req3 \<in> set (commit_requests (new_calls ?S (snd ?run3)))"
    by simp
  have resp3: "createCommitInStack ?E3 ?req3 = Inr ?resp3"
    by (simp add: ex_env_def)
  have rej3: "pathsToRejectedChanges ?resp3 \<noteq> []"
    by simp
  have plain3: "\<forall>path \<in> set (map snd (pathsToRejectedChanges ?resp3)). CHR 0x0A \<notin> set path"
    by simp
  note thm3 = rejected_paths_warning[OF surj_run mem3 resp3 rej3]
  from thm3 have three: "fst ?run3 = Inr () \<and> changeSelection (snd ?run3) = [] \<and>
     notifications (snd ?run3) = [ShowError ''Some changes were not committed'' (Text ?text3)]"
    by (simp add: ex_state_def)
  from thm3 plain3 obtain shown where
    shown: "notifications (snd ?run3) = notifications ?S @
             [ShowError ''Some changes were not committed'' (Text shown)]"
      "lines_of shown =
         ''The following files were not committed becuase they are locked to another branch:''
           # map snd (pathsToRejectedChanges ?resp3)"
    by blast
  from shown(1) three have "shown = ?text3"
    by (simp add: ex_state_def)
  with shown(2) have lines3: "lines_of ?text3 =
     [''The following files were not committed becuase they are locked to another branch:'',
      ''fileD'', ''dir/fileE'', ''fileF'']"
    by simp
  from one three lines3 show ?thesis by blast
qed

text \<open>
  C9. A run of \<open>createCommit\<close> that throws, whether in the flattening, in the backend
  commit call or before them, leaves the change selection, the saved commit title and
  description, the drawer page and the commit selection of every stack as they were.
\<close>

theorem failed_commit_keeps_ui_state:
  assumes "createCommit env msg s = (Inl e, s')"
  shows "changeSelection s' = changeSelection s \<and>
         commitTitle s' = commitTitle s \<and>
         commitDescription s' = commitDescription s \<and>
         drawerPage s' = drawerPage s \<and>
         selections s' = selections s"
  using assms
proof (cases rule: createCommit_log)
  case (aborted e')
  then show ?thesis by simp
next
  case (submitted sid bn s1 s2)
  let ?req = "\<lparr>req_projectId = projectId env, req_stackId = sid,
           parentId = selectedCommitId env s2, message = msg,
           stackBranchName = bn,
           worktreeChanges = map (spec_entry env) (changeSelection s)\<rparr>"
  from resolveTarget_frame[OF submitted(1)] submitted(3)
  have fr: "changeSelection s2 = changeSelection s" "selections s2 = selections s"
      "commitTitle s2 = commitTitle s" "commitDescription s2 = commitDescription s"
      "drawerPage s2 = drawerPage s"
    by simp_all
  have "createCommitInStack env ?req = Inl e"
  proof (cases "createCommitInStack env ?req")
    case (Inl e')
    from submitCommit_run(3)[OF submitted(4) Inl] show ?thesis using Inl by simp
  next
    case (Inr response)
    from submitCommit_run(4)[OF submitted(4) Inr] show ?thesis by simp
  qed
  from submitCommit_run(3)[OF submitted(4) this] fr show ?thesis by simp
qed

theorem failed_commit_keeps_ui_state_witness:
  "fst (createCommit (ex_env (Some ''s1'') []) ''m'' (ex_state ex_stale_selection))
     = Inl (Error ''Hunk not found while commiting'') \<and>
   changeSelection (snd (createCommit (ex_env (Some ''s1'') []) ''m''
                           (ex_state ex_stale_selection))) = ex_stale_selection \<and>
   commitTitle (snd (createCommit (ex_env (Some ''s1'') []) ''m''
                           (ex_state ex_stale_selection))) = ''title'' \<and>
   fst (createCommit (ex_failing_env (Some ''s1'')) ''m'' (ex_state ex_selection))
     = Inl (Error ''offline'') \<and>
   changeSelection (snd (createCommit (ex_failing_env (Some ''s1'')) ''m''
                           (ex_state ex_selection))) = ex_selection \<and>
   commitTitle (snd (createCommit (ex_failing_env (Some ''s1'')) ''m''
                           (ex_state ex_selection))) = ''title'' \<and>
   commitDescription (snd (createCommit (ex_failing_env (Some ''s1'')) ''m''
                           (ex_state ex_selection))) = ''body'' \<and>
   drawerPage (snd (createCommit (ex_failing_env (Some ''s1'')) ''m''
                           (ex_state ex_selection))) = Some ''new-commit'' \<and>
   selections (snd (createCommit (ex_failing_env (Some ''s1'')) ''m''
                           (ex_state ex_selection))) = (\<lambda>_. None)"
proof -
  let ?run1 = "createCommit (ex_env (Some ''s1'') []) ''m'' (ex_state ex_stale_selection)"
  let ?run2 = "createCommit (ex_failing_env (Some ''s1'')) ''m'' (ex_state ex_selection)"
  have r1: "fst ?run1 = Inl (Error ''Hunk not found while commiting'')"
    by (simp add: run_defs)
  have r2: "fst ?run2 = Inl (Error ''offline'')"
    by (simp add: run_defs ex_failing_env_def)
  have p1: "?run1 = (Inl (Error ''Hunk not found while commiting''), snd ?run1)"
    using r1 by (metis surj_run)
  have p2: "?run2 = (Inl (Error ''offline''), snd ?run2)"
    using r2 by (metis surj_run)
  from failed_commit_keeps_ui_state[OF p1] failed_commit_keeps_ui_state[OF p2] r1 r2
  show ?thesis by (simp add: ex_state_def)
qed

text \<open>
  C2. When the change selection holds a \<open>partial\<close> file with a \<open>partial\<close> hunk whose lookup
  misses (\<open>findHunkDiff\<close> throws, or returns \<open>undefined\<close> because no hunk of the fetched
  diff has the coordinates or the diff is not a patch), \<open>createCommit\<close> throws and the run
  makes no backend commit call, so no partly flattened list is submitted; and
  \<open>handleCommitCreation\<close>, called with a message, ends by showing the error
  \<open>Failed to commit\<close> with the thrown value.
\<close>

theorem stale_partial_hunk_aborts:
  assumes "PartialFile path pb ppb hunks \<in> set (changeSelection s)"
    and "PartialHunk hunk selectedLines \<in> set hunks"
    and "lookup_misses env path hunk"
  shows "\<exists>e s'. createCommit env msg s = (Inl e, s') \<and>
           commit_requests (new_calls s s') = [] \<and>
           (msg \<noteq> [] \<longrightarrow>
              handleCommitCreation env (Some msg) s =
                s'\<lparr>notifications := notifications s' @
                     [ShowError ''Failed to commit'' (Cause e)]\<rparr> \<and>
              commit_requests (new_calls s (handleCommitCreation env (Some msg) s)) = [])"
proof -
  from assms(3) have "\<not> hunk_resolves env path (PartialHunk hunk selectedLines)"
    by (auto simp: lookup_misses_def split: sum.splits option.splits)
  with assms(2) have "\<exists>h \<in> set hunks. \<not> hunk_resolves env path h"
    by blast
  then have "\<not> list_all (hunk_resolves env path) hunks"
    by (simp add: list_all_iff)
  then have "\<not> file_resolves env (PartialFile path pb ppb hunks)" by simp
  with assms(1) have "\<exists>f \<in> set (changeSelection s). \<not> file_resolves env f"
    by blast
  then have stale: "\<not> list_all (file_resolves env) (changeSelection s)"
    by (simp add: list_all_iff)
  obtain r s' where run: "createCommit env msg s = (r, s')"
    by (cases "createCommit env msg s")
  from run show ?thesis
  proof (cases rule: createCommit_log)
    case (aborted e)
    have "new_calls s (s'\<lparr>notifications := notifications s' @
                     [ShowError ''Failed to commit'' (Cause e)]\<rparr>) = new_calls s s'"
      by (simp add: new_calls_def)
    with aborted(1,2) run show ?thesis
      by (simp add: handleCommitCreation_def truthy_def notify_def)
  next
    case (submitted sid bn s1 s2)
    with stale show ?thesis by simp
  qed
qed

theorem stale_partial_hunk_aborts_witness:
  "lookup_misses (ex_env (Some ''s1'') []) ''fileC'' ex_stale_hunk \<and>
   createCommit (ex_env (Some ''s1'') []) ''m'' (ex_state ex_stale_selection) =
     (Inl (Error ''Hunk not found while commiting''),
      (ex_state ex_stale_selection)\<lparr>calls := [FetchChange ''p'' ''fileC'', FetchDiff ''p'' 7]\<rparr>) \<and>
   handleCommitCreation (ex_env (Some ''s1'') []) (Some ''m'') (ex_state ex_stale_selection) =
     (ex_state ex_stale_selection)
       \<lparr>notifications :=
          [ShowError ''Failed to commit'' (Cause (Error ''Hunk not found while commiting''))],
        calls := [FetchChange ''p'' ''fileC'', FetchDiff ''p'' 7]\<rparr>"
proof -
  let ?E = "ex_env (Some ''s1'') []"
  let ?S = "ex_state ex_stale_selection"
  have item: "PartialFile ''fileC'' [3] None [PartialHunk ex_stale_hunk [1]] \<in> set (changeSelection ?S)"
    by (simp add: ex_state_def ex_stale_selection_def)
  have hunk: "PartialHunk ex_stale_hunk [1] \<in> set [PartialHunk ex_stale_hunk [1::nat]]"
    by simp
  have miss: "lookup_misses ?E ''fileC'' ex_stale_hunk"
    by (simp add: run_defs)
  have run: "createCommit ?E ''m'' ?S =
     (Inl (Error ''Hunk not found while commiting''),
      ?S\<lparr>calls := [FetchChange ''p'' ''fileC'', FetchDiff ''p'' 7]\<rparr>)"
    by (simp add: run_defs)
  from stale_partial_hunk_aborts[OF item hunk miss, of "''m''"] run miss
  show ?thesis by (simp add: ex_state_def)
qed

section \<open>The target of the commit\<close>

text \<open>
  C10. Resolving the target is not undone by a later failure. When no stack id is given and
  the creation of the stack succeeds, the first part of \<open>createCommit\<close> has made the new
  stack the selected stack of the project and unset the draft branch name, having called
  the backend for nothing else than the new stack; that call is the first of the run, before
  any lookup of the flattening; and whatever happens later, also when a lookup or the commit
  call throws, the new stack is still the selected one and the draft branch name is still
  unset when \<open>createCommit\<close> ends.
\<close>

theorem new_stack_survives_abort:
  assumes "\<not> truthy (stackId env)"
    and "createNewStack env
           \<lparr>ns_projectId = projectId env, ns_branch_name = draftBranchName s\<rparr> = Inr stack"
    and "createCommit env msg s = (r, s')"
  shows "projectStackId (snd (resolveTarget env s)) = Some (stack_id stack) \<and>
         draftBranchName (snd (resolveTarget env s)) = None \<and>
         new_calls s (snd (resolveTarget env s)) =
           [NewStack \<lparr>ns_projectId = projectId env, ns_branch_name = draftBranchName s\<rparr>] \<and>
         (\<exists>rest. new_calls s s' =
            NewStack \<lparr>ns_projectId = projectId env, ns_branch_name = draftBranchName s\<rparr> # rest) \<and>
         projectStackId s' = Some (stack_id stack) \<and>
         draftBranchName s' = None"
proof -
  let ?n = "NewStack \<lparr>ns_projectId = projectId env, ns_branch_name = draftBranchName s\<rparr>"
  obtain r1 s1 where rt: "resolveTarget env s = (r1, s1)"
    by (cases "resolveTarget env s")
  from rt assms(1,2) have s1: "projectStackId s1 = Some (stack_id stack)"
    "draftBranchName s1 = None" "calls s1 = calls s @ [?n]"
    by (auto simp: resolveTarget_new Let_def split: if_splits)
  from s1(3) have n1: "new_calls s s1 = [?n]" by (rule new_calls_append)
  have "(\<exists>rest. new_calls s s' = ?n # rest) \<and>
         projectStackId s' = Some (stack_id stack) \<and> draftBranchName s' = None"
    using assms(3)
  proof (cases rule: createCommit_cases)
    case (resolve e)
    with rt s1 n1 show ?thesis by simp
  next
    case (flatten sid bn s1' e cs)
    with rt have eq: "s1' = s1" by simp
    from flatten(4) eq s1(3) have "calls s' = calls s @ (?n # cs)" by simp
    from new_calls_append[OF this] flatten(4) eq s1 show ?thesis by simp
  next
    case (submit sid bn s1')
    with rt have eq: "s1' = s1" by simp
    let ?s2 = "s1\<lparr>calls := calls s1 @ concat (map (spec_file_lookups env) (changeSelection s))\<rparr>"
    from submit(3) eq have sub: "submitCommit env msg sid bn
        (map (spec_entry env) (changeSelection s)) ?s2 = (r, s')"
      by simp
    from submitCommit_run(1)[OF sub] s1(3) obtain rest where "calls s' = calls s @ (?n # rest)"
      by simp
    from new_calls_append[OF this] submitCommit_run(2)[OF sub] s1 show ?thesis by simp
  qed
  with rt s1 n1 show ?thesis by simp
qed

theorem new_stack_survives_abort_witness:
  "fst (createCommit (ex_env None []) ''m'' (ex_state ex_stale_selection))
     = Inl (Error ''Hunk not found while commiting'') \<and>
   new_calls (ex_state ex_stale_selection)
     (snd (createCommit (ex_env None []) ''m'' (ex_state ex_stale_selection))) =
     [NewStack \<lparr>ns_projectId = ''p'', ns_branch_name = Some ''lane''\<rparr>,
      FetchChange ''p'' ''fileC'', FetchDiff ''p'' 7] \<and>
   projectStackId (snd (createCommit (ex_env None []) ''m'' (ex_state ex_stale_selection)))
     = Some ''s2'' \<and>
   draftBranchName (snd (createCommit (ex_env None []) ''m'' (ex_state ex_stale_selection)))
     = None \<and>
   fst (createCommit (ex_failing_env None) ''m'' (ex_state ex_selection))
     = Inl (Error ''offline'') \<and>
   projectStackId (snd (createCommit (ex_failing_env None) ''m'' (ex_state ex_selection)))
     = Some ''s2'' \<and>
   draftBranchName (snd (createCommit (ex_failing_env None) ''m'' (ex_state ex_selection)))
     = None"
proof -
  let ?E = "ex_env None []"
  let ?S = "ex_state ex_stale_selection"
  let ?F = "ex_failing_env None"
  let ?T = "ex_state ex_selection"
  let ?stack = "\<lparr>stack_id = ''s2'', heads = [\<lparr>name = ''lane''\<rparr>]\<rparr>"
  have no: "\<not> truthy (stackId ?E)" "\<not> truthy (stackId ?F)"
    by (simp_all add: ex_env_def ex_failing_env_def truthy_def)
  have new: "createNewStack ?E \<lparr>ns_projectId = projectId ?E, ns_branch_name = draftBranchName ?S\<rparr>
      = Inr ?stack"
    "createNewStack ?F \<lparr>ns_projectId = projectId ?F, ns_branch_name = draftBranchName ?T\<rparr>
      = Inr ?stack"
    by (simp_all add: ex_env_def ex_failing_env_def ex_state_def)
  have r1: "fst (createCommit ?E ''m'' ?S) = Inl (Error ''Hunk not found while commiting'')"
    by (simp add: run_defs)
  have r2: "fst (createCommit ?F ''m'' ?T) = Inl (Error ''offline'')"
    by (simp add: run_defs ex_failing_env_def)
  have log: "new_calls ?S (snd (createCommit ?E ''m'' ?S)) =
     [NewStack \<lparr>ns_projectId = ''p'', ns_branch_name = Some ''lane''\<rparr>,
      FetchChange ''p'' ''fileC'', FetchDiff ''p'' 7]"
    by (simp add: run_defs)
  from new_stack_survives_abort[OF no(1) new(1) surj_run, of "''m''"]
    new_stack_survives_abort[OF no(2) new(2) surj_run, of "''m''"] r1 r2 log
  show ?thesis by simp
qed

lemma truthy_Some_the: "truthy v \<Longrightarrow> v = Some (the v)"
  by (cases v) (simp_all add: truthy_def)

lemma fetch_not_new_stack:
  "list_all is_fetch cs \<Longrightarrow> list_all (\<lambda>c. \<not> is_new_stack c) cs"
proof (induction cs)
  case Nil
  show ?case by simp
next
  case (Cons c cs)
  then show ?case by (cases c) simp_all
qed

lemma single_request:
  assumes "length reqs = 1" and "\<forall>req \<in> set reqs. req_stackId req = a \<and> stackBranchName req = b"
  shows "map (\<lambda>req. (req_stackId req, stackBranchName req)) reqs = [(a, b)]"
proof -
  from assms(1) obtain q where "reqs = [q]"
    by (cases reqs) simp_all
  with assms(2) show ?thesis by simp
qed

text \<open>
  C3. The target of the commit. A stack id counts as given when it is defined and not empty.
  When it is given, no stack is created, and every commit request of the run goes to that
  stack and to the branch name of the stack's current selection or, when that is missing or
  empty, to the top branch name; when that name is missing too, \<open>createCommit\<close> throws
  \<open>No branch selected!\<close> with the state untouched, before any flattening or commit.
  When no stack id is given, the first backend call of the run creates a stack from the
  draft branch name, and every commit request of the run goes to the new stack and its
  first branch; when the new stack has an empty id, \<open>createCommit\<close> throws
  \<open>No stack selected!\<close>, and when it has no first branch name, \<open>No branch selected!\<close>, in
  both cases with the stack creation as the only backend call of the run. In both
  situations, when the target is there and the selection resolves, exactly one commit
  request is made.
\<close>

theorem target_resolution:
  assumes "createCommit env msg s = (r, s')"
  shows
    "(truthy (stackId env) \<longrightarrow>
        list_all (\<lambda>c. \<not> is_new_stack c) (new_calls s s') \<and>
        (\<forall>req \<in> set (commit_requests (new_calls s s')).
           Some (req_stackId req) = stackId env \<and>
           Some (stackBranchName req) =
             js_or (map_option branchName (selection env s)) (topBranchName env)) \<and>
        (\<not> truthy (js_or (map_option branchName (selection env s)) (topBranchName env)) \<longrightarrow>
           r = Inl (Error ''No branch selected!'') \<and> s' = s) \<and>
        (truthy (js_or (map_option branchName (selection env s)) (topBranchName env)) \<and>
         list_all (file_resolves env) (changeSelection s) \<longrightarrow>
           length (commit_requests (new_calls s s')) = 1)) \<and>
     (\<not> truthy (stackId env) \<longrightarrow>
        (\<exists>rest. new_calls s s' =
           NewStack \<lparr>ns_projectId = projectId env, ns_branch_name = draftBranchName s\<rparr> # rest) \<and>
        (\<forall>stack.
           createNewStack env
             \<lparr>ns_projectId = projectId env, ns_branch_name = draftBranchName s\<rparr> = Inr stack \<longrightarrow>
           (\<forall>req \<in> set (commit_requests (new_calls s s')).
              req_stackId req = stack_id stack \<and>
              Some (stackBranchName req) = first_head_name stack) \<and>
           (stack_id stack = [] \<longrightarrow>
              r = Inl (Error ''No stack selected!'') \<and>
              new_calls s s' =
                [NewStack \<lparr>ns_projectId = projectId env, ns_branch_name = draftBranchName s\<rparr>]) \<and>
           (stack_id stack \<noteq> [] \<and> \<not> truthy (first_head_name stack) \<longrightarrow>
              r = Inl (Error ''No branch selected!'') \<and>
              new_calls s s' =
                [NewStack \<lparr>ns_projectId = projectId env, ns_branch_name = draftBranchName s\<rparr>]) \<and>
           (stack_id stack \<noteq> [] \<and> truthy (first_head_name stack) \<and>
            list_all (file_resolves env) (changeSelection s) \<longrightarrow>
              length (commit_requests (new_calls s s')) = 1)))"
proof -
  let ?bn = "js_or (map_option branchName (selection env s)) (topBranchName env)"
  let ?nreq = "\<lparr>ns_projectId = projectId env, ns_branch_name = draftBranchName s\<rparr>"
  have A: "list_all (\<lambda>c. \<not> is_new_stack c) (new_calls s s') \<and>
        (\<forall>req \<in> set (commit_requests (new_calls s s')).
           Some (req_stackId req) = stackId env \<and> Some (stackBranchName req) = ?bn) \<and>
        (\<not> truthy ?bn \<longrightarrow> r = Inl (Error ''No branch selected!'') \<and> s' = s) \<and>
        (truthy ?bn \<and> list_all (file_resolves env) (changeSelection s) \<longrightarrow>
           length (commit_requests (new_calls s s')) = 1)"
    if given: "truthy (stackId env)"
  proof -
  have rt: "resolveTarget env s =
      (if truthy ?bn then (Inr (the (stackId env), the ?bn), s)
       else (Inl (Error ''No branch selected!''), s))"
    using given by (simp add: resolveTarget_given Let_def)
  have p3: "\<not> truthy ?bn \<longrightarrow> r = Inl (Error ''No branch selected!'') \<and> s' = s"
  proof
    assume "\<not> truthy ?bn"
    with rt have "resolveTarget env s = (Inl (Error ''No branch selected!''), s)" by simp
    with assms show "r = Inl (Error ''No branch selected!'') \<and> s' = s"
      by (simp add: createCommit_def)
  qed
  have p2: "\<forall>req \<in> set (commit_requests (new_calls s s')).
           Some (req_stackId req) = stackId env \<and> Some (stackBranchName req) = ?bn"
    using assms
  proof (cases rule: createCommit_log)
    case (aborted e)
    then show ?thesis by simp
  next
    case (submitted sid bn s1 s2)
    from submitted(1) rt have t: "truthy ?bn" "sid = the (stackId env)" "bn = the ?bn"
      by (auto split: if_splits)
    from truthy_Some_the[OF given] truthy_Some_the[OF t(1)] t(2,3) submitted(5)
    show ?thesis by simp
  qed
  have p1: "list_all (\<lambda>c. \<not> is_new_stack c) (new_calls s s')"
    using assms
  proof (cases rule: createCommit_cases)
    case (resolve e)
    with rt have "s' = s" by (simp split: if_splits)
    then show ?thesis by (simp add: new_calls_def)
  next
    case (flatten sid bn s1 e cs)
    with rt have "s1 = s" by (simp split: if_splits)
    with flatten(4) have "calls s' = calls s @ cs" by simp
    from new_calls_append[OF this] fetch_not_new_stack[OF flatten(5)] show ?thesis
      by simp
  next
    case (submit sid bn s1)
    with rt have eq: "s1 = s" by (simp split: if_splits)
    let ?lk = "concat (map (spec_file_lookups env) (changeSelection s))"
    from submitCommit_run(1)[OF submit(3)] eq obtain q where
      "calls s' = calls s @ (?lk @ [CreateCommitInStack q])"
      by simp
    from new_calls_append[OF this]
      fetch_not_new_stack[OF spec_file_lookups_fetch[of env "changeSelection s"]]
    show ?thesis
      by simp
  qed
  have p4: "truthy ?bn \<and> list_all (file_resolves env) (changeSelection s) \<longrightarrow>
           length (commit_requests (new_calls s s')) = 1"
  proof
    assume h: "truthy ?bn \<and> list_all (file_resolves env) (changeSelection s)"
    from assms show "length (commit_requests (new_calls s s')) = 1"
    proof (cases rule: createCommit_cases)
      case (resolve e)
      with rt h show ?thesis by simp
    next
      case (flatten sid bn s1 e cs)
      with h show ?thesis by simp
    next
      case (submit sid bn s1)
      from assms show ?thesis
      proof (cases rule: createCommit_log)
        case (aborted e)
        from submitCommit_run(1)[OF submit(3)] resolveTarget_frame[OF submit(1)]
        obtain pre q where "calls s' = calls s @ (pre @ [CreateCommitInStack q])"
          by auto
        from new_calls_append[OF this] aborted(2) show ?thesis
          by (simp add: commit_requests_append)
      next
        case (submitted sid' bn' s1' s2')
        then show ?thesis by simp
      qed
    qed
  qed
  from p1 p2 p3 p4 show ?thesis by blast
  qed
  have B: "(\<exists>rest. new_calls s s' = NewStack ?nreq # rest) \<and>
        (\<forall>stack. createNewStack env ?nreq = Inr stack \<longrightarrow>
           (\<forall>req \<in> set (commit_requests (new_calls s s')).
              req_stackId req = stack_id stack \<and>
              Some (stackBranchName req) = first_head_name stack) \<and>
           (stack_id stack = [] \<longrightarrow>
              r = Inl (Error ''No stack selected!'') \<and> new_calls s s' = [NewStack ?nreq]) \<and>
           (stack_id stack \<noteq> [] \<and> \<not> truthy (first_head_name stack) \<longrightarrow>
              r = Inl (Error ''No branch selected!'') \<and> new_calls s s' = [NewStack ?nreq]) \<and>
           (stack_id stack \<noteq> [] \<and> truthy (first_head_name stack) \<and>
            list_all (file_resolves env) (changeSelection s) \<longrightarrow>
              length (commit_requests (new_calls s s')) = 1))"
    if none: "\<not> truthy (stackId env)"
  proof -
  let ?s0 = "s\<lparr>calls := calls s @ [NewStack ?nreq]\<rparr>"
  note rt = resolveTarget_new[OF none, of s, unfolded Let_def]
  obtain r1 s1 where rs: "resolveTarget env s = (r1, s1)"
    by (cases "resolveTarget env s")
  from rs rt have c1: "calls s1 = calls s @ [NewStack ?nreq]"
    by (auto split: sum.splits if_splits)
  have q1: "\<exists>rest. new_calls s s' = NewStack ?nreq # rest"
    using assms
  proof (cases rule: createCommit_cases)
    case (resolve e)
    with rs c1 have "calls s' = calls s @ [NewStack ?nreq]" by simp
    from new_calls_append[OF this] show ?thesis by simp
  next
    case (flatten sid bn s1' e cs)
    with rs c1 have "calls s' = calls s @ (NewStack ?nreq # cs)" by simp
    from new_calls_append[OF this] show ?thesis by simp
  next
    case (submit sid bn s1')
    with rs have eq: "s1' = s1" by simp
    from submitCommit_run(1)[OF submit(3)] eq c1 obtain rest where
      "calls s' = calls s @ (NewStack ?nreq # rest)"
      by simp
    from new_calls_append[OF this] show ?thesis by simp
  qed
  have q2: "\<forall>stack. createNewStack env ?nreq = Inr stack \<longrightarrow>
           (\<forall>req \<in> set (commit_requests (new_calls s s')).
              req_stackId req = stack_id stack \<and>
              Some (stackBranchName req) = first_head_name stack) \<and>
           (stack_id stack = [] \<longrightarrow>
              r = Inl (Error ''No stack selected!'') \<and> new_calls s s' = [NewStack ?nreq]) \<and>
           (stack_id stack \<noteq> [] \<and> \<not> truthy (first_head_name stack) \<longrightarrow>
              r = Inl (Error ''No branch selected!'') \<and> new_calls s s' = [NewStack ?nreq]) \<and>
           (stack_id stack \<noteq> [] \<and> truthy (first_head_name stack) \<and>
            list_all (file_resolves env) (changeSelection s) \<longrightarrow>
              length (commit_requests (new_calls s s')) = 1)"
  proof (intro allI impI)
    fix stack
    assume created: "createNewStack env ?nreq = Inr stack"
    let ?s2 = "?s0\<lparr>projectStackId := Some (stack_id stack), draftBranchName := None\<rparr>"
    have rt': "resolveTarget env s =
        (if stack_id stack = [] then (Inl (Error ''No stack selected!''), ?s2)
         else if \<not> truthy (first_head_name stack)
           then (Inl (Error ''No branch selected!''), ?s2)
         else (Inr (stack_id stack, the (first_head_name stack)), ?s2))"
      using rt created by simp
    have guard: "\<And>e. resolveTarget env s = (Inl e, ?s2) \<Longrightarrow>
        r = Inl e \<and> new_calls s s' = [NewStack ?nreq]"
    proof -
      fix e
      assume "resolveTarget env s = (Inl e, ?s2)"
      with assms have "r = Inl e" "s' = ?s2" by (simp_all add: createCommit_def)
      then show "r = Inl e \<and> new_calls s s' = [NewStack ?nreq]"
        by (simp add: new_calls_def)
    qed
    have a: "\<forall>req \<in> set (commit_requests (new_calls s s')).
              req_stackId req = stack_id stack \<and>
              Some (stackBranchName req) = first_head_name stack"
      using assms
    proof (cases rule: createCommit_log)
      case (aborted e)
      then show ?thesis by simp
    next
      case (submitted sid bn s1' s2')
      from submitted(1) rt' have t: "truthy (first_head_name stack)" "sid = stack_id stack"
        "bn = the (first_head_name stack)"
        by (auto split: if_splits)
      from truthy_Some_the[OF t(1)] t(2,3) submitted(5) show ?thesis by simp
    qed
    have b: "stack_id stack = [] \<longrightarrow>
              r = Inl (Error ''No stack selected!'') \<and> new_calls s s' = [NewStack ?nreq]"
      using rt' guard by simp
    have c: "stack_id stack \<noteq> [] \<and> \<not> truthy (first_head_name stack) \<longrightarrow>
              r = Inl (Error ''No branch selected!'') \<and> new_calls s s' = [NewStack ?nreq]"
      using rt' guard by simp
    have d: "stack_id stack \<noteq> [] \<and> truthy (first_head_name stack) \<and>
            list_all (file_resolves env) (changeSelection s) \<longrightarrow>
              length (commit_requests (new_calls s s')) = 1"
    proof
      assume h: "stack_id stack \<noteq> [] \<and> truthy (first_head_name stack) \<and>
            list_all (file_resolves env) (changeSelection s)"
      from assms show "length (commit_requests (new_calls s s')) = 1"
      proof (cases rule: createCommit_log)
        case (aborted e)
        from assms show ?thesis
        proof (cases rule: createCommit_cases)
          case (resolve e')
          with rt' h show ?thesis by simp
        next
          case (flatten sid bn s1' e' cs)
          with h show ?thesis by simp
        next
          case (submit sid bn s1')
          from submitCommit_run(1)[OF submit(3)] resolveTarget_frame[OF submit(1)]
          obtain pre q where "calls s' = calls s @ (pre @ [CreateCommitInStack q])"
            by auto
          from new_calls_append[OF this] aborted(2) show ?thesis
            by (simp add: commit_requests_append)
        qed
      next
        case (submitted sid bn s1' s2')
        then show ?thesis by simp
      qed
    qed
    from a b c d show "(\<forall>req \<in> set (commit_requests (new_calls s s')).
              req_stackId req = stack_id stack \<and>
              Some (stackBranchName req) = first_head_name stack) \<and>
           (stack_id stack = [] \<longrightarrow>
              r = Inl (Error ''No stack selected!'') \<and> new_calls s s' = [NewStack ?nreq]) \<and>
           (stack_id stack \<noteq> [] \<and> \<not> truthy (first_head_name stack) \<longrightarrow>
              r = Inl (Error ''No branch selected!'') \<and> new_calls s s' = [NewStack ?nreq]) \<and>
           (stack_id stack \<noteq> [] \<and> truthy (first_head_name stack) \<and>
            list_all (file_resolves env) (changeSelection s) \<longrightarrow>
              length (commit_requests (new_calls s s')) = 1)"
      by blast
  qed
  from q1 q2 show ?thesis by blast
  qed
  from A B show ?thesis by blast
qed

theorem target_resolution_witness:
  "map (\<lambda>req. (req_stackId req, stackBranchName req))
     (commit_requests (new_calls (ex_state_selected ex_selection)
        (snd (createCommit (ex_env (Some ''s1'') []) ''m'' (ex_state_selected ex_selection)))))
     = [(''s1'', ''feature'')] \<and>
   map (\<lambda>req. (req_stackId req, stackBranchName req))
     (commit_requests (new_calls (ex_state ex_selection)
        (snd (createCommit (ex_env (Some ''s1'') []) ''m'' (ex_state ex_selection)))))
     = [(''s1'', ''top'')] \<and>
   createCommit ex_no_branches_env ''m'' (ex_state ex_selection)
     = (Inl (Error ''No branch selected!''), ex_state ex_selection) \<and>
   map (\<lambda>req. (req_stackId req, stackBranchName req))
     (commit_requests (new_calls (ex_state ex_selection)
        (snd (createCommit (ex_env None []) ''m'' (ex_state ex_selection)))))
     = [(''s2'', ''lane'')] \<and>
   fst (createCommit (ex_env None []) ''m'' ((ex_state ex_selection)\<lparr>draftBranchName := None\<rparr>))
     = Inl (Error ''No branch selected!'') \<and>
   new_calls ((ex_state ex_selection)\<lparr>draftBranchName := None\<rparr>)
     (snd (createCommit (ex_env None []) ''m''
             ((ex_state ex_selection)\<lparr>draftBranchName := None\<rparr>)))
     = [NewStack \<lparr>ns_projectId = ''p'', ns_branch_name = None\<rparr>] \<and>
   fst (createCommit ex_unnamed_stack_env ''m'' (ex_state ex_selection))
     = Inl (Error ''No stack selected!'') \<and>
   new_calls (ex_state ex_selection)
     (snd (createCommit ex_unnamed_stack_env ''m'' (ex_state ex_selection)))
     = [NewStack \<lparr>ns_projectId = ''p'', ns_branch_name = Some ''lane''\<rparr>]"
proof -
  let ?G = "ex_env (Some ''s1'') []"
  let ?N = "ex_env None []"
  let ?S = "ex_state ex_selection"
  let ?P = "ex_state_selected ex_selection"
  let ?D = "?S\<lparr>draftBranchName := None\<rparr>"
  have given: "truthy (stackId ?G)" "truthy (stackId ex_no_branches_env)"
    by (simp_all add: ex_env_def ex_no_branches_env_def truthy_def)
  have none: "\<not> truthy (stackId ?N)" "\<not> truthy (stackId ex_unnamed_stack_env)"
    by (simp_all add: ex_env_def ex_unnamed_stack_env_def truthy_def)
  have ok: "list_all (file_resolves ?G) (changeSelection ?S)"
    "list_all (file_resolves ?G) (changeSelection ?P)"
    "list_all (file_resolves ?N) (changeSelection ?S)"
    by (simp_all add: run_defs ex_state_selected_def)
  have bn1: "js_or (map_option branchName (selection ?G ?P)) (topBranchName ?G) = Some ''feature''"
    by (simp add: run_defs ex_state_selected_def)
  have bn2: "js_or (map_option branchName (selection ?G ?S)) (topBranchName ?G) = Some ''top''"
    by (simp add: run_defs)
  have bn3: "\<not> truthy (js_or (map_option branchName (selection ex_no_branches_env ?S))
                    (topBranchName ex_no_branches_env))"
    by (simp add: run_defs ex_no_branches_env_def)
  have sid: "stackId ?G = Some ''s1''"
    by (simp add: ex_env_def)
  have a: "map (\<lambda>req. (req_stackId req, stackBranchName req))
     (commit_requests (new_calls ?P (snd (createCommit ?G ''m'' ?P)))) = [(''s1'', ''feature'')]"
    using target_resolution[where env = ?G and msg = "''m''" and s = ?P, OF surj_run] given(1) ok(2) bn1 sid
    by (intro single_request) (simp_all add: truthy_def)
  have b: "map (\<lambda>req. (req_stackId req, stackBranchName req))
     (commit_requests (new_calls ?S (snd (createCommit ?G ''m'' ?S)))) = [(''s1'', ''top'')]"
    using target_resolution[where env = ?G and msg = "''m''" and s = ?S, OF surj_run] given(1) ok(1) bn2 sid
    by (intro single_request) (simp_all add: truthy_def)
  have c: "createCommit ex_no_branches_env ''m'' ?S = (Inl (Error ''No branch selected!''), ?S)"
    using target_resolution[where env = ex_no_branches_env and msg = "''m''" and s = ?S, OF surj_run] given(2) bn3
    by (metis surj_run)
  let ?lane = "\<lparr>stack_id = ''s2'', heads = [\<lparr>name = ''lane''\<rparr>]\<rparr>"
  have new1: "createNewStack ?N \<lparr>ns_projectId = projectId ?N, ns_branch_name = draftBranchName ?S\<rparr>
      = Inr ?lane"
    by (simp add: ex_env_def ex_state_def)
  have hd1: "first_head_name ?lane = Some ''lane''" "stack_id ?lane \<noteq> []"
    by (simp_all add: first_head_name_def)
  have d: "map (\<lambda>req. (req_stackId req, stackBranchName req))
     (commit_requests (new_calls ?S (snd (createCommit ?N ''m'' ?S)))) = [(''s2'', ''lane'')]"
    using target_resolution[where env = ?N and msg = "''m''" and s = ?S, OF surj_run] none(1) ok(3) new1 hd1
    by (intro single_request) (simp_all add: truthy_def)
  let ?bare = "\<lparr>stack_id = ''s2'', heads = []\<rparr>"
  have new2: "createNewStack ?N \<lparr>ns_projectId = projectId ?N, ns_branch_name = draftBranchName ?D\<rparr>
      = Inr ?bare"
    by (simp add: ex_env_def ex_state_def)
  have hd2: "\<not> truthy (first_head_name ?bare)" "stack_id ?bare \<noteq> []"
    by (simp_all add: first_head_name_def truthy_def)
  have e: "fst (createCommit ?N ''m'' ?D) = Inl (Error ''No branch selected!'') \<and>
     new_calls ?D (snd (createCommit ?N ''m'' ?D))
       = [NewStack \<lparr>ns_projectId = ''p'', ns_branch_name = None\<rparr>]"
    using target_resolution[where env = ?N and msg = "''m''" and s = ?D, OF surj_run] none(1) new2 hd2
    by (simp add: ex_env_def ex_state_def)
  let ?anon = "\<lparr>stack_id = [], heads = [\<lparr>name = ''lane''\<rparr>]\<rparr>"
  have new3: "createNewStack ex_unnamed_stack_env
      \<lparr>ns_projectId = projectId ex_unnamed_stack_env, ns_branch_name = draftBranchName ?S\<rparr>
      = Inr ?anon"
    by (simp add: ex_unnamed_stack_env_def)
  have f: "fst (createCommit ex_unnamed_stack_env ''m'' ?S) = Inl (Error ''No stack selected!'') \<and>
     new_calls ?S (snd (createCommit ex_unnamed_stack_env ''m'' ?S))
       = [NewStack \<lparr>ns_projectId = ''p'', ns_branch_name = Some ''lane''\<rparr>]"
    using target_resolution[where env = ex_unnamed_stack_env and msg = "''m''" and s = ?S, OF surj_run] none(2) new3
    by (simp add: ex_unnamed_stack_env_def ex_env_def ex_state_def)
  from a b c d e f show ?thesis by blast
qed

end
